theory Spec2Isabelle
  imports Complex_Main "HOL-Library.Char_ord" "HOL-Library.List_Lexorder"
begin

section \<open>Data model\<close>

text \<open>
  The generators read two tables of the SQLite store into pandas data frames. A data
  frame is a list of rows in store order; only the columns that the modelled routines
  read are kept. Following the data model of the specification, the cleaned label
  columns are never null, so a cell is a \<open>string\<close> (the UTF-8 bytes of the Python
  \<open>str\<close>; bytewise lexicographic order on UTF-8 is code-point order, which is how
  Python compares strings).
\<close>

record class_row =
  Classification :: string
  Method_clean :: string
  Study_region_clean :: string
  Decade :: string

datatype py_error = ZeroDivisionError | KeyError | FileNotFoundError string

text \<open>
  A percentage is a Python float rounded to one decimal place. It is kept as an exact
  number of tenths (\<open>Tenths 667\<close> is \<open>66.7\<close>); \<open>NonFinite\<close> stands for the
  \<open>inf\<close>/\<open>nan\<close> that numpy returns, with a warning and without raising, when a numpy
  integer is divided by zero. Binary floating point is abstracted by exact rational
  arithmetic: the quotient \<open>count / n_total * 100\<close> is rounded to the nearest tenth,
  ties to even, as \<open>round(x, 1)\<close> and \<open>Series.round(1)\<close> do.
\<close>

datatype pyfloat1 = Tenths int | NonFinite

definition round_half_even :: "nat \<Rightarrow> nat \<Rightarrow> int" where
  "round_half_even a b =
     (let q = a div b; r = a mod b
      in if 2 * r < b then int q
         else if b < 2 * r then int q + 1
         else if even q then int q else int q + 1)"

definition np_percentage :: "nat \<Rightarrow> nat \<Rightarrow> pyfloat1" where
  \<comment> \<open>\<open>round(count / n_total * 100, 1)\<close> for a numpy integer \<open>count\<close>\<close>
  "np_percentage count n_total =
     (if n_total = 0 then NonFinite else Tenths (round_half_even (count * 1000) n_total))"

record table_row =
  Count :: nat
  Percentage :: pyfloat1

subsection \<open>\<open>Series.value_counts\<close>\<close>

text \<open>
  \<open>value_counts\<close> yields one entry per distinct value with the number of its
  occurrences, most frequent first. pandas collects the distinct values in order of
  first appearance and sorts them by count; the order among equal counts is taken here
  to be the order of first appearance.
\<close>

primrec uniques :: "'a list \<Rightarrow> 'a list" where
  "uniques [] = []"
| "uniques (x # xs) = x # filter (\<lambda>y. y \<noteq> x) (uniques xs)"

definition sort_desc :: "('a \<Rightarrow> nat) \<Rightarrow> 'a list \<Rightarrow> 'a list" where
  \<comment> \<open>\<open>list.sort(key=f, reverse=True)\<close>: stable, largest key first\<close>
  "sort_desc f xs = sort_key (\<lambda>x. - int (f x)) xs"

definition value_counts :: "'a list \<Rightarrow> ('a \<times> nat) list" where
  "value_counts xs = sort_desc snd (map (\<lambda>x. (x, count_list xs x)) (uniques xs))"

definition py_percentage :: "nat \<Rightarrow> nat \<Rightarrow> py_error + pyfloat1" where
  \<comment> \<open>\<open>round(count / n_total * 100, 1)\<close> for a Python \<open>int\<close> \<open>count\<close>\<close>
  "py_percentage count n_total =
     (if n_total = 0 then Inl ZeroDivisionError
      else Inr (Tenths (round_half_even (count * 1000) n_total)))"

definition py_true_div :: "nat \<Rightarrow> nat \<Rightarrow> py_error + rat" where
  \<comment> \<open>\<open>a / b\<close> on Python \<open>int\<close>s\<close>
  "py_true_div a b = (if b = 0 then Inl ZeroDivisionError else Inr (of_nat a / of_nat b))"

definition series_get :: "('a \<times> nat) list \<Rightarrow> 'a \<Rightarrow> py_error + nat" where
  \<comment> \<open>\<open>counts[key]\<close>\<close>
  "series_get counts k = (case map_of counts k of None \<Rightarrow> Inl KeyError | Some c \<Rightarrow> Inr c)"

fun collect :: "('a \<Rightarrow> py_error + 'b) \<Rightarrow> 'a list \<Rightarrow> py_error + 'b list" where
  "collect f [] = Inr []"
| "collect f (x # xs) =
     (case f x of Inl e \<Rightarrow> Inl e
      | Inr y \<Rightarrow> (case collect f xs of Inl e \<Rightarrow> Inl e | Inr ys \<Rightarrow> Inr (y # ys)))"

section \<open>Table 1: papers by classification category\<close>

record t1_row = table_row +
  Category :: string
  Category_Name :: string

definition em_dash :: string where
  "em_dash = [CHR 0xE2, CHR 0x80, CHR 0x94]"

definition CATEGORY_NAMES :: "(string \<times> string) list" where
  "CATEGORY_NAMES =
    [(''A'', ''Hydropower scheduling and water values''),
     (''B'', ''Stochastic programming for hydropower''),
     (''C'', ''Hydro-economic modelling''),
     (''D'', ''Irrigation and agricultural water value''),
     (''E'', ''Urban and municipal water value''),
     (''F'', ''Environmental and ecological water value''),
     (''G'', ''Multi-purpose reservoir operation''),
     (''H'', ''Water markets and pricing''),
     (''R'', ''Review / Other'')]"

definition category_name :: "string \<Rightarrow> string" where
  \<comment> \<open>\<open>CATEGORY_NAMES.get(cat, "[Category name ... see article.txt]")\<close>\<close>
  "category_name cat =
     (case map_of CATEGORY_NAMES cat of
        Some name \<Rightarrow> name
      | None \<Rightarrow> ''[Category name '' @ em_dash @ '' see article.txt]'')"

definition t1_total :: "nat \<Rightarrow> t1_row" where
  "t1_total n_total =
     \<lparr>Count = n_total, Percentage = Tenths 1000, Category = ''Total'', Category_Name = ''''\<rparr>"

definition t1_entry :: "nat \<Rightarrow> (string \<times> nat) list \<Rightarrow> string \<Rightarrow> py_error + t1_row" where
  "t1_entry n_total counts cat =
     (case series_get counts cat of
        Inl e \<Rightarrow> Inl e
      | Inr count \<Rightarrow>
          Inr \<lparr>Count = count, Percentage = np_percentage count n_total,
               Category = cat, Category_Name = category_name cat\<rparr>)"

definition generate_classification_table :: "class_row list \<Rightarrow> py_error + t1_row list" where
  "generate_classification_table df =
     (let n_total = length df;
          counts = value_counts (map Classification df)
      in case collect (t1_entry n_total counts) (sort (map fst counts)) of
           Inl e \<Rightarrow> Inl e
         | Inr rows \<Rightarrow> Inr (rows @ [t1_total n_total]))"

section \<open>Table 2: papers by method type\<close>

record t2_row = table_row +
  Method :: string

definition t2_entry :: "nat \<Rightarrow> string \<times> nat \<Rightarrow> t2_row" where
  "t2_entry n_total mc =
     \<lparr>Count = snd mc, Percentage = np_percentage (snd mc) n_total, Method = fst mc\<rparr>"

definition t2_total :: "nat \<Rightarrow> t2_row" where
  "t2_total n_total = \<lparr>Count = n_total, Percentage = Tenths 1000, Method = ''Total''\<rparr>"

definition generate_method_table :: "class_row list \<Rightarrow> t2_row list" where
  "generate_method_table df =
     (let n_total = length df;
          counts = value_counts (map Method_clean df);
          rows = map (t2_entry n_total) counts
      in sort_desc Count rows @ [t2_total n_total])"

section \<open>Table 3: papers by study region\<close>

record t3_row = table_row +
  Country_or_Region :: string

definition always_show :: "string set" where
  "always_show = {''Not specified'', ''Synthetic/Theoretical''}"

text \<open>
  The bucketing loop threads three variables through the entries of \<open>raw_counts\<close>:
  the dictionary \<open>main_entries\<close> (an association list in insertion order; the keys of
  \<open>raw_counts\<close> are distinct, so no entry is ever overwritten), \<open>other_count\<close> and
  \<open>n_other_entries\<close>.
\<close>

fun bucket_loop ::
  "(string \<times> nat) list \<Rightarrow> (string \<times> nat) list \<times> nat \<times> nat
     \<Rightarrow> (string \<times> nat) list \<times> nat \<times> nat" where
  "bucket_loop [] st = st"
| "bucket_loop ((region, count) # rest) (main_entries, other_count, n_other_entries) =
     (if region \<in> always_show then
        bucket_loop rest (main_entries @ [(region, count)], other_count, n_other_entries)
      else if count \<ge> 3 then
        bucket_loop rest (main_entries @ [(region, count)], other_count, n_other_entries)
      else
        bucket_loop rest (main_entries, other_count + count, n_other_entries + 1))"

definition digit_char :: "nat \<Rightarrow> char" where
  "digit_char d = char_of (48 + d)"

fun str_nat :: "nat \<Rightarrow> string" where
  "str_nat n = (if n < 10 then [digit_char n] else str_nat (n div 10) @ [digit_char (n mod 10)])"

declare str_nat.simps [simp del]

definition t3_entry :: "nat \<Rightarrow> string \<times> nat \<Rightarrow> t3_row" where
  "t3_entry n_total rc =
     \<lparr>Count = snd rc, Percentage = np_percentage (snd rc) n_total, Country_or_Region = fst rc\<rparr>"

definition t3_other :: "nat \<Rightarrow> nat \<Rightarrow> nat \<Rightarrow> t3_row" where
  "t3_other n_total other_count n_other_entries =
     \<lparr>Count = other_count, Percentage = np_percentage other_count n_total,
      Country_or_Region = ''Other ('' @ str_nat n_other_entries @ '' countries/regions)''\<rparr>"

definition t3_total :: "nat \<Rightarrow> t3_row" where
  "t3_total n_total =
     \<lparr>Count = n_total, Percentage = Tenths 1000, Country_or_Region = ''Total''\<rparr>"

definition region_rows :: "nat \<Rightarrow> (string \<times> nat) list \<Rightarrow> t3_row list" where
  \<comment> \<open>the list \<open>rows\<close> just before it is sorted\<close>
  "region_rows n_total raw_counts =
     (case bucket_loop raw_counts ([], 0, 0) of
        (main_entries, other_count, n_other_entries) \<Rightarrow>
          map (t3_entry n_total) main_entries @
          (if other_count > 0 then [t3_other n_total other_count n_other_entries] else []))"

text \<open>
  After the table is built the function computes the share of papers without a study
  region for a note it prints: \<open>raw_counts.get("Not specified", 0) / n_total * 100\<close>.
  When \<open>"Not specified"\<close> does not occur the dividend is the Python \<open>int\<close> 0, and the
  division raises on an empty table.
\<close>

definition generate_region_table :: "class_row list \<Rightarrow> py_error + t3_row list" where
  "generate_region_table df =
     (let n_total = length df;
          raw_counts = value_counts (map Study_region_clean df);
          rows = sort_desc Count (region_rows n_total raw_counts) @ [t3_total n_total]
      in case (case map_of raw_counts ''Not specified'' of
                 None \<Rightarrow> py_true_div 0 n_total
               | Some not_specified_count \<Rightarrow> Inr (of_nat not_specified_count / of_nat n_total))
         of Inl e \<Rightarrow> Inl e
          | Inr not_specified_pct \<Rightarrow> Inr rows)"

section \<open>Table 4: papers by publication year range\<close>

text \<open>
  The table has one row for each of six fixed year ranges, whether or not the range
  occurs in the data. The earliest, latest and median year that the function prints
  after the table are not part of the table and are not modelled.
\<close>

record t4_row = table_row +
  Year_Range :: string

definition en_dash :: string where
  "en_dash = [CHR 0xE2, CHR 0x80, CHR 0x93]"

definition decade_order :: "string list" where
  "decade_order =
     [''Pre-2000'', ''2000'' @ en_dash @ ''2004'', ''2005'' @ en_dash @ ''2009'',
      ''2010'' @ en_dash @ ''2014'', ''2015'' @ en_dash @ ''2019'',
      ''2020'' @ en_dash @ ''2025'']"

definition t4_entry :: "nat \<Rightarrow> (string \<times> nat) list \<Rightarrow> string \<Rightarrow> py_error + t4_row" where
  \<comment> \<open>\<open>decade_counts.get(decade, 0)\<close> is a numpy integer when the decade occurs and
      the Python \<open>int\<close> 0 otherwise\<close>
  "t4_entry n_total decade_counts decade =
     (case map_of decade_counts decade of
        Some count \<Rightarrow>
          Inr \<lparr>Count = count, Percentage = np_percentage count n_total, Year_Range = decade\<rparr>
      | None \<Rightarrow>
          (case py_percentage 0 n_total of
             Inl e \<Rightarrow> Inl e
           | Inr pct \<Rightarrow> Inr \<lparr>Count = 0, Percentage = pct, Year_Range = decade\<rparr>))"

definition t4_total :: "nat \<Rightarrow> t4_row" where
  "t4_total n_total = \<lparr>Count = n_total, Percentage = Tenths 1000, Year_Range = ''Total''\<rparr>"

definition generate_year_table :: "class_row list \<Rightarrow> py_error + t4_row list" where
  "generate_year_table df =
     (let n_total = length df;
          decade_counts = value_counts (map Decade df)
      in case collect (t4_entry n_total decade_counts) decade_order of
           Inl e \<Rightarrow> Inl e
         | Inr rows \<Rightarrow> Inr (rows @ [t4_total n_total]))"

section \<open>Table 6: water values by purpose\<close>

record 'id wv_row =
  ID :: 'id
  Purpose_clean :: string
  Country_clean :: string
  Continent :: string

record t6_row =
  Purpose :: string
  Data_Points_Count :: nat
  Papers_Count :: nat
  Countries_Count :: nat
  Continents_Count :: nat
  Pct_of_Data_Points :: pyfloat1

definition nunique :: "'a list \<Rightarrow> nat" where
  "nunique xs = length (uniques xs)"

definition t6_entry :: "nat \<Rightarrow> 'id wv_row list \<Rightarrow> string \<Rightarrow> t6_row" where
  \<comment> \<open>the aggregates of one group of \<open>groupby("Purpose_clean")\<close>, with its percentage\<close>
  "t6_entry n_total df_wv p =
     (let grp = filter (\<lambda>r. Purpose_clean r = p) df_wv
      in \<lparr>Purpose = p,
          Data_Points_Count = length grp,
          Papers_Count = nunique (map ID grp),
          Countries_Count = nunique (map Country_clean grp),
          Continents_Count = nunique (map Continent grp),
          Pct_of_Data_Points = np_percentage (length grp) n_total\<rparr>)"

definition t6_total :: "'id wv_row list \<Rightarrow> t6_row" where
  "t6_total df_wv =
     \<lparr>Purpose = ''Total'',
      Data_Points_Count = length df_wv,
      Papers_Count = nunique (map ID df_wv),
      Countries_Count = nunique (map Country_clean df_wv),
      Continents_Count = nunique (map Continent df_wv),
      Pct_of_Data_Points = Tenths 1000\<rparr>"

text \<open>
  \<open>groupby\<close> lists the groups by ascending key; \<open>sort_values\<close> then orders them by
  descending number of data points (equal counts are taken to keep their key order).
\<close>

definition generate_wv_purpose_table :: "'id wv_row list \<Rightarrow> t6_row list" where
  "generate_wv_purpose_table df_wv =
     (let n_total = length df_wv;
          purpose_stats =
            sort_desc Data_Points_Count
              (map (t6_entry n_total df_wv) (sort (uniques (map Purpose_clean df_wv))))
      in purpose_stats @ [t6_total df_wv])"

section \<open>Chart 2: geographic distribution\<close>

definition special_categories :: "string set" where
  "special_categories = {''Not specified'', ''Synthetic/Theoretical''}"

text \<open>
  \<open>create_geographic_distribution\<close> draws one horizontal bar per entry of
  \<open>display_data\<close>; the model returns this list of labels and counts (the rendering
  itself is not modelled). The function prints the share of papers without a study
  region before it draws, which divides the Python \<open>int\<close> 0 by \<open>n_total\<close> when
  \<open>"Not specified"\<close> does not occur.
\<close>

definition create_geographic_distribution ::
  "class_row list \<Rightarrow> py_error + (string \<times> nat) list" where
  "create_geographic_distribution df =
     (let n_total = length df;
          region_counts = value_counts (map Study_region_clean df);
          special_counts = filter (\<lambda>kv. fst kv \<in> special_categories) region_counts;
          regular_counts = filter (\<lambda>kv. fst kv \<notin> special_categories) region_counts;
          regular_sorted = sort_desc snd regular_counts;
          top_15 = take 15 regular_sorted;
          other_count = sum_list (map snd (drop 15 regular_sorted));
          n_other = length (drop 15 regular_sorted);
          display_data =
            concat (map (\<lambda>cat. case map_of special_counts cat of
                                   Some c \<Rightarrow> [(cat, c)] | None \<Rightarrow> [])
                      [''Not specified'', ''Synthetic/Theoretical''])
            @ (if other_count > 0
               then [(''Other ('' @ str_nat n_other @ '' regions)'', other_count)] else [])
            @ rev top_15
      in case (case map_of special_counts ''Not specified'' of
                 None \<Rightarrow> py_true_div 0 n_total
               | Some c \<Rightarrow> Inr (of_nat c / of_nat n_total))
         of Inl e \<Rightarrow> Inl e
          | Inr not_specified_share \<Rightarrow> Inr display_data)"

section \<open>Chart 1: moving averages of the papers per year\<close>

text \<open>
  \<open>Series.rolling(window, center=True, min_periods).mean()\<close> on a series without missing
  values. pandas' fixed window indexer gives index \<open>i\<close> the window from
  \<open>i + 1 + offset - window\<close> (inclusive) to \<open>i + 1 + offset\<close> (exclusive), where
  \<open>offset = (window - 1) // 2\<close>, both clipped to the range of the series. The mean is
  kept as an exact rational; \<open>None\<close> is \<open>NaN\<close>.
\<close>

definition rolling_mean :: "nat \<Rightarrow> nat \<Rightarrow> int list \<Rightarrow> rat option list" where
  "rolling_mean window min_periods xs =
     (let n = length xs; offset = (window - 1) div 2
      in map (\<lambda>i. let stop = min (i + 1 + offset) n;
                      start = min (i + 1 + offset - window) n;
                      obs = take (stop - start) (drop start xs)
                  in if min_periods \<le> length obs
                     then Some (of_int (sum_list obs) / of_nat (length obs))
                     else None)
           [0..<n])"

definition ma_3yr :: "int list \<Rightarrow> rat option list" where
  "ma_3yr annual_totals = rolling_mean 3 2 annual_totals"

definition ma_5yr :: "int list \<Rightarrow> rat option list" where
  "ma_5yr annual_totals = rolling_mean 5 3 annual_totals"


section \<open>The store and the file system\<close>

text \<open>
  The scripts act on the SQLite store and on files below the repository root. The world
  they run in is passed explicitly. \<open>store\<close> is the content of
  \<open>data/water_value_database.db\<close>, \<open>None\<close> when the file does not exist; \<open>queries\<close> lists
  the tables read from it so far. \<open>files\<close> maps the path of every output file to its
  content: of a text file (formatted tables, captions, reports) only the \<open>Generated:\<close>
  time stamp written into it is kept (empty when it has none), and a figure is opaque. \<open>dirs\<close> and \<open>scripts\<close> are the existing directories and script files. Paths are
  relative to the repository root, which is the working directory of every script.
\<close>

record 'id database =
  classification :: "class_row list"
  water_values :: "'id wv_row list"

text \<open>
  A data frame as \<open>DataFrame.to_csv\<close> sees it: the column names and the rows of cells.
  The bytes of a CSV file are \<open>to_csv(index=False, encoding="utf-8-sig")\<close> of the frame
  it was written from, so the file is identified with that frame.
\<close>

datatype cell = Str_cell string | Int_cell nat | Float_cell pyfloat1

type_synonym frame = "string list \<times> cell list list"

datatype content = CSV frame | Text string | Image

record 'id world =
  store :: "'id database option"
  queries :: "string list"
  files :: "string \<Rightarrow> content option"
  dirs :: "string list"
  scripts :: "string list"

definition SQLITE_PATH :: string where
  "SQLITE_PATH = ''data/water_value_database.db''"

definition FIGURES_DIR :: string where
  "FIGURES_DIR = ''figures''"

definition TABLES_DIR :: string where
  "TABLES_DIR = ''tables''"

definition path_exists :: "'id world \<Rightarrow> string \<Rightarrow> bool" where
  \<comment> \<open>\<open>Path.exists()\<close>\<close>
  "path_exists w p \<longleftrightarrow>
     (if p = SQLITE_PATH then store w \<noteq> None
      else files w p \<noteq> None \<or> p \<in> set (dirs w) \<or> p \<in> set (scripts w))"

definition mkdir :: "string \<Rightarrow> 'id world \<Rightarrow> 'id world" where
  \<comment> \<open>\<open>Path.mkdir(parents=True, exist_ok=True)\<close>\<close>
  "mkdir d w = (if d \<in> set (dirs w) then w else w\<lparr>dirs := dirs w @ [d]\<rparr>)"

section \<open>Pipeline runner\<close>

record step =
  number :: int
  name :: string
  script :: string
  outputs :: "string list"

definition STEPS :: "step list" where
  "STEPS =
    [\<lparr>number = 1, name = ''Summary Tables'', script = ''01_summary_tables.py'',
      outputs = [''figures/table_1_classification.csv'', ''figures/table_2_methods.csv'',
                 ''figures/table_3_regions.csv'', ''figures/table_4_years.csv'',
                 ''figures/table_5_wv_summary.csv'', ''figures/table_6_wv_purpose.csv'']\<rparr>,
     \<lparr>number = 2, name = ''Completeness Heatmap'', script = ''02_completeness_heatmap.py'',
      outputs = [''figures/fig_completeness_heatmap.png'',
                 ''figures/fig_completeness_heatmap.pdf'']\<rparr>,
     \<lparr>number = 3, name = ''Analytical Charts'', script = ''03_analytical_charts.py'',
      outputs = [''figures/fig_year_method_stacked.png'',
                 ''figures/fig_geographic_distribution.png'',
                 ''figures/fig_wv_datapoints_by_year.png'',
                 ''figures/fig_continent_purpose_heatmap.png'',
                 ''figures/fig_category_method_heatmap.png'']\<rparr>]"

text \<open>
  What the runner prints is kept as a list of messages. \<open>subprocess.run\<close> either times
  out, raises another exception, or returns the exit code of the child; the child also
  changes the world. Its behaviour is a parameter \<open>child\<close> of the runner, from the path
  of the script and the world before to the outcome and the world after.
\<close>

datatype message =
    Database_not_found
  | Database_found
  | Step_banner int
  | Script_not_found string
  | Timeout_exceeded
  | Error_raised
  | Failed_exit_code int
  | Missing_outputs "string list"
  | Completed_with_warnings
  | Completed_successfully int
  | Invalid_step_number int
  | Pipeline_halted int
  | All_steps_completed
  | Pipeline_incomplete

datatype proc_outcome = TimeoutExpired | Raised | Exited int

definition check_prerequisites :: "'id world \<Rightarrow> bool \<times> message list" where
  "check_prerequisites w =
     (if \<not> path_exists w SQLITE_PATH then (False, [Database_not_found])
      else (True, [Database_found]))"

definition run_step ::
  "(string \<Rightarrow> 'id world \<Rightarrow> proc_outcome \<times> 'id world) \<Rightarrow> step \<Rightarrow> 'id world
     \<Rightarrow> bool \<times> message list \<times> 'id world" where
  "run_step child step w =
     (let script_path = ''scripts/'' @ script step
      in if \<not> path_exists w script_path
         then (False, [Step_banner (number step), Script_not_found script_path], w)
         else
           (case child script_path w of
              (TimeoutExpired, w') \<Rightarrow> (False, [Step_banner (number step), Timeout_exceeded], w')
            | (Raised, w') \<Rightarrow> (False, [Step_banner (number step), Error_raised], w')
            | (Exited returncode, w') \<Rightarrow>
                if returncode \<noteq> 0
                then (False, [Step_banner (number step), Failed_exit_code returncode], w')
                else
                  (let missing_outputs = filter (\<lambda>p. \<not> path_exists w' p) (outputs step)
                   in if missing_outputs \<noteq> []
                      then (True, [Step_banner (number step), Missing_outputs missing_outputs,
                                   Completed_with_warnings], w')
                      else (True, [Step_banner (number step),
                                   Completed_successfully (number step)], w'))))"

fun run_steps ::
  "(string \<Rightarrow> 'id world \<Rightarrow> proc_outcome \<times> 'id world) \<Rightarrow> int \<Rightarrow> step list
     \<Rightarrow> (int \<times> bool) list \<times> message list \<times> 'id world
     \<Rightarrow> (int \<times> bool) list \<times> message list \<times> 'id world" where
  "run_steps child args_step [] st = st"
| "run_steps child args_step (step # rest) (results, msgs, w) =
     (case run_step child step w of
        (success, out, w') \<Rightarrow>
          if \<not> success \<and> args_step = 0
          then (results @ [(number step, success)],
                msgs @ out @ [Pipeline_halted (number step)], w')
          else run_steps child args_step rest
                 (results @ [(number step, success)], msgs @ out, w'))"

definition summary :: "(int \<times> bool) list \<Rightarrow> int \<times> message list" where
  \<comment> \<open>the exit code and the closing message of the pipeline summary\<close>
  "summary results =
     (let n_pass = length (filter (\<lambda>kv. snd kv) results);
          n_fail = length (filter (\<lambda>kv. \<not> snd kv) results);
          n_skip = length STEPS - length results
      in if n_fail = 0 \<and> n_skip = 0 then (0, [All_steps_completed])
         else if n_fail > 0 then (1, [Pipeline_incomplete])
         else (0, []))"

definition runner_main ::
  "(string \<Rightarrow> 'id world \<Rightarrow> proc_outcome \<times> 'id world) \<Rightarrow> int \<Rightarrow> 'id world
     \<Rightarrow> int \<times> (int \<times> bool) list \<times> message list \<times> 'id world" where
  \<comment> \<open>\<open>main\<close> of the runner, from the value of \<open>--step\<close>; the first component is the
      exit code of the process\<close>
  "runner_main child args_step w =
     (case check_prerequisites w of
        (False, out) \<Rightarrow> (1, [], out, w)
      | (True, out) \<Rightarrow>
          (let steps_to_run =
                 (if args_step > 0 then filter (\<lambda>s. number s = args_step) STEPS else STEPS)
           in if args_step > 0 \<and> steps_to_run = []
              then (1, [], out @ [Invalid_step_number args_step], w)
              else
                (case run_steps child args_step steps_to_run ([], out, mkdir FIGURES_DIR w) of
                   (results, msgs, w') \<Rightarrow>
                     (case summary results of
                        (code, closing) \<Rightarrow> (code, results, msgs @ closing, w')))))"

section \<open>The generator scripts\<close>

text \<open>
  Each script starts with \<open>load_data\<close>, which raises \<open>FileNotFoundError\<close> when
  \<open>SQLITE_PATH.exists()\<close> is false, that is when \<open>store\<close> is \<open>None\<close>, and otherwise reads
  the tables. The lines a script prints to the console are not modelled.
\<close>

definition not_found_message :: string where
  \<comment> \<open>the text of the \<open>FileNotFoundError\<close> that the three \<open>load_data\<close> raise\<close>
  "not_found_message =
     ''SQLite database not found: '' @ SQLITE_PATH @ [CHR 0x0A] @
     ''Run 01_data_preparation.py and 02_derived_variables.py first.''"

definition load_data :: "'id world \<Rightarrow> py_error + (class_row list \<times> 'id wv_row list \<times> 'id world)" where
  \<comment> \<open>\<open>load_data\<close> of \<open>01_summary_tables.py\<close> and \<open>03_analytical_charts.py\<close>\<close>
  "load_data w =
     (case store w of
        None \<Rightarrow> Inl (FileNotFoundError not_found_message)
      | Some db \<Rightarrow>
          Inr (classification db, water_values db,
               w\<lparr>queries := queries w @ [''classification'', ''water_values'']\<rparr>))"

definition load_data_02 :: "'id world \<Rightarrow> py_error + ('id database \<times> 'id world)" where
  \<comment> \<open>\<open>load_data\<close> of \<open>02_completeness_heatmap.py\<close>, which also reads \<open>screening\<close>\<close>
  "load_data_02 w =
     (case store w of
        None \<Rightarrow> Inl (FileNotFoundError not_found_message)
      | Some db \<Rightarrow>
          Inr (db, w\<lparr>queries := queries w @
                         [''screening'', ''classification'', ''water_values'']\<rparr>))"

definition write_file :: "string \<Rightarrow> content \<Rightarrow> 'id world \<Rightarrow> 'id world" where
  "write_file p c w = w\<lparr>files := (files w)(p \<mapsto> c)\<rparr>"

subsection \<open>\<open>01_summary_tables.py\<close>\<close>








definition csv_names :: "(string \<times> string) list" where
  "csv_names =
     [(''table_1'', ''table_1_classification.csv''), (''table_2'', ''table_2_methods.csv''),
      (''table_3'', ''table_3_regions.csv''), (''table_4'', ''table_4_years.csv''),
      (''table_5'', ''table_5_wv_summary.csv''), (''table_6'', ''table_6_wv_purpose.csv'')]"

fun write_csvs ::
  "(string \<times> frame) list \<Rightarrow> (string \<times> string) list \<Rightarrow> 'id world
     \<Rightarrow> (py_error + unit) \<times> 'id world" where
  "write_csvs tables [] w = (Inr (), w)"
| "write_csvs tables ((key, filename) # rest) w =
     (case map_of tables key of
        None \<Rightarrow> (Inl KeyError, w)
      | Some t \<Rightarrow> write_csvs tables rest (write_file (TABLES_DIR @ ''/'' @ filename) (CSV t) w))"

definition export_tables ::
  "(string \<times> frame) list \<Rightarrow> string \<Rightarrow> 'id world \<Rightarrow> (py_error + unit) \<times> 'id world" where
  \<comment> \<open>\<open>now\<close> is the time stamp that \<open>datetime.now()\<close> yields for the formatted text file\<close>
  "export_tables tables now w =
     (case write_csvs tables csv_names (mkdir TABLES_DIR w) of
        (Inl e, w') \<Rightarrow> (Inl e, w')
      | (Inr u, w') \<Rightarrow>
          (case map_of tables ''table_3'' of
             None \<Rightarrow> (Inl KeyError, w')
           | Some t3 \<Rightarrow>
               (Inr (), write_file (TABLES_DIR @ ''/all_tables_formatted.txt'') (Text now) w')))"

definition save_report :: "string \<Rightarrow> string \<Rightarrow> 'id world \<Rightarrow> (py_error + unit) \<times> 'id world" where
  \<comment> \<open>\<open>open(FIGURES_DIR / name, "w")\<close> fails when the directory does not exist\<close>
  "save_report report_name now w =
     (if FIGURES_DIR \<notin> set (dirs w)
      then (Inl (FileNotFoundError (FIGURES_DIR @ ''/'' @ report_name)), w)
      else (Inr (), write_file (FIGURES_DIR @ ''/'' @ report_name) (Text now) w))"


subsection \<open>\<open>02_completeness_heatmap.py\<close> and \<open>03_analytical_charts.py\<close>\<close>

text \<open>
  The aggregation and plotting routines of these two scripts are not modelled. Each of
  them either raises, which depends on the data only, or completes and then writes its
  files; \<open>fails\<close> gives for the name of a routine and a database the exception it
  raises, if any.
\<close>

definition save_figure :: "string \<Rightarrow> 'id world \<Rightarrow> 'id world" where
  \<comment> \<open>\<open>_save_figure\<close>: the figure as PNG and as PDF\<close>
  "save_figure fig w =
     write_file (FIGURES_DIR @ ''/'' @ fig @ ''.pdf'') Image
       (write_file (FIGURES_DIR @ ''/'' @ fig @ ''.png'') Image (mkdir FIGURES_DIR w))"

definition main_02 ::
  "(string \<Rightarrow> 'id database \<Rightarrow> py_error option) \<Rightarrow> string \<Rightarrow> 'id world
     \<Rightarrow> (py_error + unit) \<times> 'id world" where
  "main_02 fails now w =
     (case load_data_02 w of
        Inl e \<Rightarrow> (Inl e, w)
      | Inr (db, w1) \<Rightarrow>
          (case fails ''calculate_completeness'' db of
             Some e \<Rightarrow> (Inl e, w1)
           | None \<Rightarrow>
               (case fails ''create_heatmap'' db of
                  Some e \<Rightarrow> (Inl e, mkdir FIGURES_DIR w1)
                | None \<Rightarrow>
                    (let w2 = save_figure ''fig_completeness_heatmap'' w1
                     in case fails ''generate_caption'' db of
                          Some e \<Rightarrow> (Inl e, w2)
                        | None \<Rightarrow>
                            (let w3 = write_file
                                        (FIGURES_DIR @ ''/fig_completeness_heatmap_caption.txt'')
                                        (Text []) w2
                             in case fails ''print_completeness_summary'' db of
                                  Some e \<Rightarrow> (Inl e, w3)
                                | None \<Rightarrow>
                                    save_report ''completeness_heatmap_report.txt'' now w3)))))"

definition charts :: "(string \<times> string) list" where
  \<comment> \<open>the chart routines in the order \<open>main\<close> calls them, with the figures they save\<close>
  "charts =
     [(''create_year_method_stacked'', ''fig_year_method_stacked''),
      (''create_geographic_distribution'', ''fig_geographic_distribution''),
      (''create_wv_datapoints_by_year'', ''fig_wv_datapoints_by_year''),
      (''create_continent_purpose_heatmap'', ''fig_continent_purpose_heatmap''),
      (''create_category_method_heatmap'', ''fig_category_method_heatmap'')]"

fun create_charts ::
  "(string \<Rightarrow> 'id database \<Rightarrow> py_error option) \<Rightarrow> 'id database \<Rightarrow> (string \<times> string) list
     \<Rightarrow> 'id world \<Rightarrow> (py_error + unit) \<times> 'id world" where
  "create_charts fails db [] w = (Inr (), w)"
| "create_charts fails db ((routine, fig) # rest) w =
     (case fails routine db of
        Some e \<Rightarrow> (Inl e, w)
      | None \<Rightarrow> create_charts fails db rest (save_figure fig w))"

definition main_03 ::
  "(string \<Rightarrow> 'id database \<Rightarrow> py_error option) \<Rightarrow> string \<Rightarrow> string \<Rightarrow> 'id world
     \<Rightarrow> (py_error + unit) \<times> 'id world" where
  "main_03 fails now later w =
     (case load_data w of
        Inl e \<Rightarrow> (Inl e, w)
      | Inr (df_class, df_wv, w1) \<Rightarrow>
          (case create_charts fails \<lparr>classification = df_class, water_values = df_wv\<rparr> charts w1 of
             (Inl e, w2) \<Rightarrow> (Inl e, w2)
           | (Inr u, w2) \<Rightarrow>
               save_report ''analytical_charts_report.txt'' later
                 (write_file (FIGURES_DIR @ ''/fig_analytical_charts_captions.txt'') (Text now)
                    (mkdir FIGURES_DIR w2))))"

definition csv_files :: "'id world \<Rightarrow> string \<Rightarrow> frame option" where
  \<comment> \<open>the CSV files of a world\<close>
  "csv_files w p = (case files w p of Some (CSV t) \<Rightarrow> Some t | _ \<Rightarrow> None)"


section \<open>Properties of the runner\<close>

fun steps_started :: "message list \<Rightarrow> int list" where
  \<comment> \<open>the numbers of the steps whose banner was printed, in order\<close>
  "steps_started [] = []"
| "steps_started (Step_banner n # ms) = n # steps_started ms"
| "steps_started (m # ms) = steps_started ms"

text \<open>
  A world to instantiate the properties of the scripts: the store holds two empty
  tables, the three generator scripts are in place and nothing has been written yet.
\<close>

definition example_world :: "nat world" where
  "example_world =
     \<lparr>store = Some \<lparr>classification = [], water_values = []\<rparr>,
      queries = [],
      files = (\<lambda>p. None),
      dirs = [''data'', ''scripts''],
      scripts = [''scripts/01_summary_tables.py'', ''scripts/02_completeness_heatmap.py'',
                 ''scripts/03_analytical_charts.py'']\<rparr>"




section \<open>Properties of the tables\<close>

text \<open>
  Every table ends with its Total row, so the rows other than the Total row are
  \<open>butlast\<close> of the table. A list of percentages sums to 100.0 up to the rounding of
  each entry when every entry is finite and the sum differs from 100.0 by at most 0.05
  (half a tenth) per entry.
\<close>

fun tenths_of :: "pyfloat1 list \<Rightarrow> int list option" where
  "tenths_of [] = Some []"
| "tenths_of (Tenths t # ps) = map_option ((#) t) (tenths_of ps)"
| "tenths_of (NonFinite # ps) = None"

definition sums_to_100 :: "pyfloat1 list \<Rightarrow> bool" where
  "sums_to_100 ps =
     (case tenths_of ps of
        None \<Rightarrow> False
      | Some ts \<Rightarrow> 2 * \<bar>sum_list ts - 1000\<bar> \<le> int (length ts))"

definition counts_add_up :: "('a table_row_scheme) list \<Rightarrow> bool" where
  "counts_add_up t = (sum_list (map Count (butlast t)) = Count (last t))"

definition percentages_add_up :: "('a table_row_scheme) list \<Rightarrow> bool" where
  "percentages_add_up t = sums_to_100 (map Percentage (butlast t))"

definition wv_counts_add_up :: "t6_row list \<Rightarrow> bool" where
  "wv_counts_add_up t =
     (sum_list (map Data_Points_Count (butlast t)) = Data_Points_Count (last t))"

definition wv_percentages_add_up :: "t6_row list \<Rightarrow> bool" where
  "wv_percentages_add_up t = sums_to_100 (map Pct_of_Data_Points (butlast t))"

definition all_finite :: "('a table_row_scheme) list \<Rightarrow> bool" where
  \<comment> \<open>every percentage of the table is a finite number\<close>
  "all_finite t = list_all (\<lambda>r. Percentage r \<noteq> NonFinite) t"


text \<open>
  A small classification table used to instantiate the properties of Table 3: three
  papers on Norway, one each on Chile and Peru, and one without a study region.
\<close>

definition example_regions :: "class_row list" where
  "example_regions =
     map (\<lambda>r. \<lparr>Classification = ''A'', Method_clean = ''LP'', Study_region_clean = r,
                Decade = ''Pre-2000''\<rparr>)
       [''Norway'', ''Chile'', ''Norway'', ''Not specified'', ''Peru'', ''Norway'']"


text \<open>
  A classification table with a long tail: three papers on one region and four regions
  with one paper each.
\<close>

definition example_long_tail :: "class_row list" where
  "example_long_tail =
     map (\<lambda>r. \<lparr>Classification = ''A'', Method_clean = ''LP'', Study_region_clean = r,
                Decade = ''Pre-2000''\<rparr>)
       [''X'', ''X'', ''X'', ''a'', ''b'', ''c'', ''d'']"

section \<open>Verification\<close>

subsection \<open>Counting and sorting\<close>

lemma set_uniques [simp]: "set (uniques xs) = set xs"
  by (induction xs) auto

lemma distinct_uniques [simp]: "distinct (uniques xs)"
  by (induction xs) auto

lemma sum_count_uniques: "sum_list (map (count_list xs) (uniques xs)) = length xs"
proof -
  have "sum_list (map (count_list xs) (uniques xs)) = sum (count_list xs) (set (uniques xs))"
    by (simp add: sum_list_distinct_conv_sum_set)
  also have "\<dots> = length xs"
    by (simp add: sum_count_set)
  finally show ?thesis .
qed

lemma set_sort_desc [simp]: "set (sort_desc f xs) = set xs"
  by (simp add: sort_desc_def)

lemma length_sort_desc [simp]: "length (sort_desc f xs) = length xs"
  by (simp add: sort_desc_def)

lemma distinct_sort_desc [simp]: "distinct (sort_desc f xs) = distinct xs"
  by (simp add: sort_desc_def)

lemma sum_list_insort_key:
  "sum_list (map g (insort_key k x xs)) = g x + sum_list (map g xs)" for g :: "'a \<Rightarrow> 'b::comm_monoid_add"
  by (induction xs) (auto simp: add.left_commute)

lemma sum_list_sort_key:
  "sum_list (map g (sort_key k xs)) = sum_list (map g xs)" for g :: "'a \<Rightarrow> 'b::comm_monoid_add"
  by (induction xs) (auto simp: sum_list_insort_key)

lemma sum_list_sort_desc:
  "sum_list (map g (sort_desc f xs)) = sum_list (map g xs)" for g :: "'a \<Rightarrow> 'b::comm_monoid_add"
  by (simp add: sort_desc_def sum_list_sort_key)

lemma set_value_counts: "set (value_counts xs) = (\<lambda>x. (x, count_list xs x)) ` set xs"
  by (simp add: value_counts_def)


lemma distinct_map_insort_key:
  "distinct (map g (insort_key k x xs)) \<longleftrightarrow> g x \<notin> g ` set xs \<and> distinct (map g xs)"
  by (induction xs) (auto simp: set_insort_key)

lemma distinct_map_sort_key: "distinct (map g (sort_key k xs)) \<longleftrightarrow> distinct (map g xs)"
  by (induction xs) (auto simp: distinct_map_insort_key)

lemma distinct_keys_value_counts: "distinct (map fst (value_counts xs))"
  by (simp add: value_counts_def sort_desc_def distinct_map_sort_key comp_def)

lemma sum_value_counts: "sum_list (map snd (value_counts xs)) = length xs"
  by (simp add: value_counts_def sum_list_sort_desc comp_def sum_count_uniques)

lemma map_of_value_counts:
  "map_of (value_counts xs) k = (if k \<in> set xs then Some (count_list xs k) else None)"
proof (cases "k \<in> set xs")
  case True
  then have "(k, count_list xs k) \<in> set (value_counts xs)"
    by (auto simp: set_value_counts)
  then show ?thesis
    using True distinct_keys_value_counts [of xs] by simp
next
  case False
  then have "k \<notin> fst ` set (value_counts xs)"
    by (auto simp: set_value_counts)
  then show ?thesis
    using False by (simp add: map_of_eq_None_iff)
qed


lemma round_half_even_error:
  assumes "0 < b"
  shows "2 * \<bar>round_half_even a b * int b - int a\<bar> \<le> int b"
proof -
  define q where "q = a div b"
  define r where "r = a mod b"
  have a: "int a = int q * int b + int r"
    unfolding q_def r_def by (metis div_mult_mod_eq of_nat_add of_nat_mult)
  have r: "r < b" unfolding r_def using assms by simp
  have c1: "2 * r < b \<Longrightarrow> 2 * \<bar>int q * int b - int a\<bar> \<le> int b"
    using a by simp
  have c2: "b \<le> 2 * r \<Longrightarrow> 2 * \<bar>(int q + 1) * int b - int a\<bar> \<le> int b"
    using a r by (simp add: algebra_simps)
  have c3: "2 * r = b \<Longrightarrow> 2 * \<bar>int q * int b - int a\<bar> \<le> int b"
    using a by simp
  show ?thesis
    unfolding round_half_even_def Let_def q_def [symmetric] r_def [symmetric]
    using c1 c2 c3 by (simp split: if_splits)
qed


lemma rounded_sum_error:
  assumes "0 < n"
  shows "2 * \<bar>(\<Sum>c\<leftarrow>cs. round_half_even (c * 1000) n) * int n - 1000 * int (sum_list cs)\<bar>
           \<le> int (length cs) * int n"
proof (induction cs)
  case Nil
  show ?case by simp
next
  case (Cons c cs)
  let ?S = "(\<Sum>c\<leftarrow>cs. round_half_even (c * 1000) n)"
  have one: "2 * \<bar>round_half_even (c * 1000) n * int n - int (c * 1000)\<bar> \<le> int n"
    using assms by (rule round_half_even_error)
  have split: "(round_half_even (c * 1000) n + ?S) * int n - 1000 * int (c + sum_list cs)
                 = (round_half_even (c * 1000) n * int n - int (c * 1000))
                   + (?S * int n - 1000 * int (sum_list cs))"
    by (simp add: algebra_simps)
  have "2 * \<bar>(round_half_even (c * 1000) n + ?S) * int n - 1000 * int (c + sum_list cs)\<bar>
          \<le> 2 * \<bar>round_half_even (c * 1000) n * int n - int (c * 1000)\<bar>
            + 2 * \<bar>?S * int n - 1000 * int (sum_list cs)\<bar>"
    unfolding split
    using abs_triangle_ineq [of "round_half_even (c * 1000) n * int n - int (c * 1000)"
        "?S * int n - 1000 * int (sum_list cs)"]
    by simp
  also have "\<dots> \<le> int n + int (length cs) * int n"
    using one Cons.IH by linarith
  finally show ?case
    by (simp add: algebra_simps)
qed

lemma rounded_sum_near_1000:
  assumes "0 < n" and "sum_list cs = n"
  shows "2 * \<bar>(\<Sum>c\<leftarrow>cs. round_half_even (c * 1000) n) - 1000\<bar> \<le> int (length cs)"
proof -
  let ?S = "(\<Sum>c\<leftarrow>cs. round_half_even (c * 1000) n)"
  have "2 * \<bar>?S * int n - 1000 * int n\<bar> \<le> int (length cs) * int n"
    using rounded_sum_error [OF assms(1), of cs] assms(2) by simp
  moreover have "?S * int n - 1000 * int n = (?S - 1000) * int n"
    by (simp add: algebra_simps)
  ultimately have "(2 * \<bar>?S - 1000\<bar>) * int n \<le> int (length cs) * int n"
    by (simp add: abs_mult)
  then show ?thesis
    using assms(1) by simp
qed

lemma tenths_of_np_percentage:
  "0 < n \<Longrightarrow> tenths_of (map (\<lambda>c. np_percentage c n) cs)
     = Some (map (\<lambda>c. round_half_even (c * 1000) n) cs)"
  by (induction cs) (simp_all add: np_percentage_def)

lemma sums_to_100_np_percentage:
  assumes "0 < n" and "sum_list cs = n"
  shows "sums_to_100 (map (\<lambda>c. np_percentage c n) cs)"
  using rounded_sum_near_1000 [OF assms]
  by (simp add: sums_to_100_def tenths_of_np_percentage [OF assms(1)])


lemma value_counts_snd:
  "(k, c) \<in> set (value_counts xs) \<Longrightarrow> c = count_list xs k \<and> k \<in> set xs"
  by (auto simp: set_value_counts)

lemma keys_value_counts: "set (map fst (value_counts xs)) = set xs"
  by (force simp: set_value_counts)

lemma collect_map:
  "(\<And>x. x \<in> set xs \<Longrightarrow> f x = Inr (g x)) \<Longrightarrow> collect f xs = Inr (map g xs)"
  by (induction xs) simp_all

lemma sum_count_keys:
  "sum_list (map (count_list xs) (map fst (value_counts xs))) = length xs"
proof -
  have "map (count_list xs) (map fst (value_counts xs)) = map snd (value_counts xs)"
    by (auto dest: value_counts_snd)
  then have "sum_list (map (count_list xs) (map fst (value_counts xs)))
               = sum_list (map snd (value_counts xs))"
    by (rule arg_cong)
  then show ?thesis
    by (simp only: sum_value_counts)
qed

lemma table_adds_up:
  assumes "\<And>r. r \<in> set body \<Longrightarrow> Percentage r = np_percentage (Count r) n"
    and "sum_list (map Count body) = n" and "Count tot = n"
  shows "counts_add_up (body @ [tot]) \<and> (0 < n \<longrightarrow> percentages_add_up (body @ [tot]))"
proof -
  have eq: "map Percentage body = map (\<lambda>c. np_percentage c n) (map Count body)"
    using assms(1) by simp
  have "0 < n \<Longrightarrow> sums_to_100 (map Percentage body)"
    unfolding eq using assms(2) by (intro sums_to_100_np_percentage)
  then show ?thesis
    using assms(2,3) by (auto simp: counts_add_up_def percentages_add_up_def)
qed

subsection \<open>The tables in closed form\<close>

lemma generate_classification_table_eq:
  "generate_classification_table df =
     Inr (map (\<lambda>cat. \<lparr>Count = count_list (map Classification df) cat,
                 Percentage = np_percentage (count_list (map Classification df) cat) (length df),
                 Category = cat, Category_Name = category_name cat\<rparr>)
            (sort (map fst (value_counts (map Classification df))))
          @ [t1_total (length df)])"
proof -
  let ?cs = "map Classification df"
  have "collect (t1_entry (length df) (value_counts ?cs)) (sort (map fst (value_counts ?cs)))
          = Inr (map (\<lambda>cat. \<lparr>Count = count_list ?cs cat,
                 Percentage = np_percentage (count_list ?cs cat) (length df),
                 Category = cat, Category_Name = category_name cat\<rparr>)
                  (sort (map fst (value_counts ?cs))))"
    by (rule collect_map)
       (simp add: t1_entry_def series_get_def map_of_value_counts keys_value_counts
          del: set_map)
  then show ?thesis
    by (simp add: generate_classification_table_def Let_def)
qed

lemma table_1_adds_up:
  "\<exists>t. generate_classification_table df = Inr t \<and> counts_add_up t
       \<and> (df \<noteq> [] \<longrightarrow> percentages_add_up t)"
proof -
  let ?cs = "map Classification df"
  let ?body = "map (\<lambda>cat. \<lparr>Count = count_list ?cs cat,
                 Percentage = np_percentage (count_list ?cs cat) (length df),
                 Category = cat, Category_Name = category_name cat\<rparr>)
                (sort (map fst (value_counts ?cs)))"
  have "sum_list (map Count ?body)
          = sum_list (map (count_list ?cs) (sort (map fst (value_counts ?cs))))"
    by (simp add: comp_def)
  also have "\<dots> = length df"
    using sum_count_keys [of ?cs] by (simp add: sum_list_sort_key)
  finally have sum: "sum_list (map Count ?body) = length df" .
  have "counts_add_up (?body @ [t1_total (length df)])
      \<and> (0 < length df \<longrightarrow> percentages_add_up (?body @ [t1_total (length df)]))"
    by (rule table_adds_up [OF _ sum]) (auto simp: t1_total_def)
  then show ?thesis
    by (simp add: generate_classification_table_eq)
qed

lemma table_2_adds_up:
  "counts_add_up (generate_method_table df)
     \<and> (df \<noteq> [] \<longrightarrow> percentages_add_up (generate_method_table df))"
proof -
  let ?n = "length df"
  let ?body = "sort_desc Count (map (t2_entry ?n) (value_counts (map Method_clean df)))"
  have sum: "sum_list (map Count ?body) = ?n"
    using sum_value_counts [of "map Method_clean df"]
    by (simp add: sum_list_sort_desc comp_def t2_entry_def)
  have "counts_add_up (?body @ [t2_total ?n])
      \<and> (0 < ?n \<longrightarrow> percentages_add_up (?body @ [t2_total ?n]))"
    by (rule table_adds_up [OF _ sum]) (auto simp: t2_entry_def t2_total_def)
  then show ?thesis
    by (simp add: generate_method_table_def Let_def)
qed

lemma bucket_loop_eq:
  "bucket_loop raw (m, oc, no) =
     (m @ filter (\<lambda>rc. fst rc \<in> always_show \<or> 3 \<le> snd rc) raw,
      oc + sum_list (map snd (filter (\<lambda>rc. \<not> (fst rc \<in> always_show \<or> 3 \<le> snd rc)) raw)),
      no + length (filter (\<lambda>rc. \<not> (fst rc \<in> always_show \<or> 3 \<le> snd rc)) raw))"
  by (induction raw arbitrary: m oc no) auto

lemma sum_list_filter_split:
  "sum_list (map f (filter P xs)) + sum_list (map f (filter (\<lambda>x. \<not> P x) xs))
     = (sum_list (map f xs) :: nat)"
  by (induction xs) auto

lemma region_rows_sum:
  "sum_list (map Count (region_rows n raw)) = sum_list (map snd raw)"
proof -
  let ?keep = "\<lambda>rc :: string \<times> nat. fst rc \<in> always_show \<or> 3 \<le> snd rc"
  let ?oc = "sum_list (map snd (filter (\<lambda>rc. \<not> ?keep rc) raw))"
  have "sum_list (map Count (region_rows n raw))
          = sum_list (map snd (filter ?keep raw)) + ?oc"
    by (cases "?oc = 0")
       (simp_all add: region_rows_def bucket_loop_eq comp_def t3_entry_def t3_other_def
          del: sum_list_eq_0_iff)
  then show ?thesis
    using sum_list_filter_split [of snd ?keep raw] by simp
qed

lemma region_rows_pct:
  "r \<in> set (region_rows n raw) \<Longrightarrow> Percentage r = np_percentage (Count r) n"
  by (auto simp: region_rows_def bucket_loop_eq t3_entry_def t3_other_def split: if_splits)

lemma generate_region_table_eq:
  "df \<noteq> [] \<Longrightarrow> generate_region_table df =
     Inr (sort_desc Count (region_rows (length df) (value_counts (map Study_region_clean df)))
          @ [t3_total (length df)])"
  by (simp add: generate_region_table_def py_true_div_def Let_def split: option.splits)

lemma generate_region_table_empty: "generate_region_table [] = Inl ZeroDivisionError"
  by (simp add: generate_region_table_def py_true_div_def value_counts_def sort_desc_def)

lemma table_3_adds_up:
  assumes "df \<noteq> []"
  shows "\<exists>t. generate_region_table df = Inr t \<and> counts_add_up t \<and> percentages_add_up t"
proof -
  let ?n = "length df"
  let ?body = "sort_desc Count (region_rows ?n (value_counts (map Study_region_clean df)))"
  have sum: "sum_list (map Count ?body) = ?n"
    using sum_value_counts [of "map Study_region_clean df"]
    by (simp add: sum_list_sort_desc region_rows_sum)
  have "counts_add_up (?body @ [t3_total ?n])
      \<and> (0 < ?n \<longrightarrow> percentages_add_up (?body @ [t3_total ?n]))"
    by (rule table_adds_up [OF _ sum]) (auto simp: region_rows_pct t3_total_def)
  then show ?thesis
    using assms by (simp add: generate_region_table_eq)
qed

lemma distinct_decade_order: "distinct decade_order"
  by (simp add: decade_order_def en_dash_def)

lemma t4_entry_nonempty:
  "0 < n \<Longrightarrow> t4_entry n (value_counts ds) d =
     Inr \<lparr>Count = count_list ds d, Percentage = np_percentage (count_list ds d) n,
          Year_Range = d\<rparr>"
  by (simp add: t4_entry_def map_of_value_counts py_percentage_def np_percentage_def)

lemma generate_year_table_eq:
  assumes "df \<noteq> []"
  shows "generate_year_table df =
     Inr (map (\<lambda>d. \<lparr>Count = count_list (map Decade df) d,
               Percentage = np_percentage (count_list (map Decade df) d) (length df),
               Year_Range = d\<rparr>) decade_order
          @ [t4_total (length df)])"
proof -
  have "collect (t4_entry (length df) (value_counts (map Decade df))) decade_order
          = Inr (map (\<lambda>d. \<lparr>Count = count_list (map Decade df) d,
               Percentage = np_percentage (count_list (map Decade df) d) (length df),
               Year_Range = d\<rparr>) decade_order)"
    using assms by (intro collect_map) (simp add: t4_entry_nonempty)
  then show ?thesis
    by (simp add: generate_year_table_def Let_def)
qed

lemma generate_year_table_empty: "generate_year_table [] = Inl ZeroDivisionError"
  by (simp add: generate_year_table_def decade_order_def value_counts_def sort_desc_def
      t4_entry_def py_percentage_def)

lemma table_4_adds_up:
  assumes "df \<noteq> []" and "set (map Decade df) \<subseteq> set decade_order"
  shows "\<exists>t. generate_year_table df = Inr t \<and> counts_add_up t \<and> percentages_add_up t"
proof -
  let ?n = "length df"
  let ?ds = "map Decade df"
  let ?body = "map (\<lambda>d. \<lparr>Count = count_list ?ds d,
               Percentage = np_percentage (count_list ?ds d) ?n, Year_Range = d\<rparr>) decade_order"
  have "sum_list (map Count ?body) = sum_list (map (count_list ?ds) decade_order)"
    by (simp add: comp_def)
  also have "\<dots> = sum (count_list ?ds) (set decade_order)"
    using distinct_decade_order by (simp add: sum_list_distinct_conv_sum_set)
  also have "\<dots> = length ?ds"
    using assms(2) by (intro sum_count_set) simp_all
  finally have sum: "sum_list (map Count ?body) = ?n"
    by simp
  have "counts_add_up (?body @ [t4_total ?n])
      \<and> (0 < ?n \<longrightarrow> percentages_add_up (?body @ [t4_total ?n]))"
    by (rule table_adds_up [OF _ sum]) (auto simp: t4_total_def)
  then show ?thesis
    using assms(1) by (simp add: generate_year_table_eq)
qed

lemma length_filter_eq_count_list:
  "length (filter (\<lambda>r. f r = p) xs) = count_list (map f xs) p"
  by (induction xs) auto

lemma table_6_adds_up:
  "wv_counts_add_up (generate_wv_purpose_table df_wv)
     \<and> (df_wv \<noteq> [] \<longrightarrow> wv_percentages_add_up (generate_wv_purpose_table df_wv))"
proof -
  let ?n = "length df_wv"
  let ?ps = "map Purpose_clean df_wv"
  let ?body = "sort_desc Data_Points_Count (map (t6_entry ?n df_wv) (sort (uniques ?ps)))"
  have "sum_list (map Data_Points_Count ?body)
          = sum_list (map (count_list ?ps) (sort (uniques ?ps)))"
    by (simp add: sum_list_sort_desc comp_def t6_entry_def length_filter_eq_count_list Let_def)
  also have "\<dots> = ?n"
    using sum_count_uniques [of ?ps] by (simp add: sum_list_sort_key)
  finally have sum: "sum_list (map Data_Points_Count ?body) = ?n" .
  have "map Pct_of_Data_Points ?body
          = map (\<lambda>c. np_percentage c ?n) (map Data_Points_Count ?body)"
    by (simp add: t6_entry_def Let_def)
  then have "0 < ?n \<Longrightarrow> sums_to_100 (map Pct_of_Data_Points ?body)"
    using sum by (simp only: sums_to_100_np_percentage)
  then show ?thesis
    using sum
    by (simp add: generate_wv_purpose_table_def wv_counts_add_up_def wv_percentages_add_up_def
        t6_total_def Let_def)
qed

subsection \<open>Sums of counts and percentages\<close>

text \<open>
  C1 (as amended). For each of Tables 1, 2, 3, 4 and 6 the generator returns a table in
  which the Counts of the rows other than the Total row sum to the Count of the Total
  row, and, when the input table is not empty, the Percentages of those rows sum to
  100.0 up to the rounding of each entry to one decimal place (at most 0.05 per row).
  Table 3 is returned for every non-empty classification table, and Table 4 has the
  property when the classification table is not empty and every \<open>Decade\<close> value is one of
  the six year ranges that the table lists.
\<close>

theorem tables_add_up:
  "(\<exists>t. generate_classification_table df = Inr t \<and> counts_add_up t
        \<and> (df \<noteq> [] \<longrightarrow> percentages_add_up t))
   \<and> (counts_add_up (generate_method_table df)
        \<and> (df \<noteq> [] \<longrightarrow> percentages_add_up (generate_method_table df)))
   \<and> (df \<noteq> [] \<longrightarrow>
        (\<exists>t. generate_region_table df = Inr t \<and> counts_add_up t \<and> percentages_add_up t))
   \<and> (df \<noteq> [] \<and> set (map Decade df) \<subseteq> set decade_order \<longrightarrow>
        (\<exists>t. generate_year_table df = Inr t \<and> counts_add_up t \<and> percentages_add_up t))
   \<and> (wv_counts_add_up (generate_wv_purpose_table df_wv)
        \<and> (df_wv \<noteq> [] \<longrightarrow> wv_percentages_add_up (generate_wv_purpose_table df_wv)))"
  using table_1_adds_up [of df] table_2_adds_up [of df] table_3_adds_up [of df]
    table_4_adds_up [of df] table_6_adds_up [of df_wv]
  by blast

theorem tables_add_up_witness:
  "(\<exists>t. generate_region_table
          [\<lparr>Classification = ''A'', Method_clean = ''LP'', Study_region_clean = ''Norway'',
            Decade = ''Pre-2000''\<rparr>,
           \<lparr>Classification = ''B'', Method_clean = ''SDP'', Study_region_clean = ''Brazil'',
            Decade = ''2020'' @ en_dash @ ''2025''\<rparr>] = Inr t
        \<and> counts_add_up t \<and> percentages_add_up t)
   \<and> (\<exists>t. generate_year_table
          [\<lparr>Classification = ''A'', Method_clean = ''LP'', Study_region_clean = ''Norway'',
            Decade = ''Pre-2000''\<rparr>,
           \<lparr>Classification = ''B'', Method_clean = ''SDP'', Study_region_clean = ''Brazil'',
            Decade = ''2020'' @ en_dash @ ''2025''\<rparr>] = Inr t
        \<and> counts_add_up t \<and> percentages_add_up t)
   \<and> wv_percentages_add_up (generate_wv_purpose_table
          [\<lparr>ID = 1 :: nat, Purpose_clean = ''Hydropower'', Country_clean = ''Norway'',
            Continent = ''Europe''\<rparr>])"
  using tables_add_up
    [of "[\<lparr>Classification = ''A'', Method_clean = ''LP'', Study_region_clean = ''Norway'',
            Decade = ''Pre-2000''\<rparr>,
          \<lparr>Classification = ''B'', Method_clean = ''SDP'', Study_region_clean = ''Brazil'',
            Decade = ''2020'' @ en_dash @ ''2025''\<rparr>]"
        "[\<lparr>ID = 1 :: nat, Purpose_clean = ''Hydropower'', Country_clean = ''Norway'',
            Continent = ''Europe''\<rparr>]"]
  by (simp add: decade_order_def)

text \<open>
  The claim as stated fails: a paper whose \<open>Decade\<close> is none of the six listed year ranges
  is counted in the Total row of Table 4 and in no other row, and for the empty
  classification table Table 1 has no row but the Total row, so its percentages sum
  to 0.
\<close>

theorem tables_add_up_counterexample:
  "map_sum id (map Count)
     (generate_year_table
        [\<lparr>Classification = ''A'', Method_clean = ''LP'', Study_region_clean = ''Norway'',
          Decade = ''Unknown''\<rparr>]) = Inr [0, 0, 0, 0, 0, 0, 1]
   \<and> map_sum id counts_add_up
     (generate_year_table
        [\<lparr>Classification = ''A'', Method_clean = ''LP'', Study_region_clean = ''Norway'',
          Decade = ''Unknown''\<rparr>]) = Inr False
   \<and> map_sum id percentages_add_up (generate_classification_table []) = Inr False"
  by (simp add: generate_year_table_eq generate_classification_table_eq decade_order_def
      en_dash_def t4_total_def t1_total_def counts_add_up_def percentages_add_up_def
      sums_to_100_def value_counts_def sort_desc_def)

subsection \<open>Table 1 on a three-row table\<close>

lemma value_counts_AAB: "value_counts [''A'', ''A'', ''B''] = [(''A'', 2), (''B'', 1)]"
  by code_simp

lemma value_counts_ABA: "value_counts [''A'', ''B'', ''A''] = [(''A'', 2), (''B'', 1)]"
  by code_simp

lemma value_counts_BAA: "value_counts [''B'', ''A'', ''A''] = [(''A'', 2), (''B'', 1)]"
  by code_simp

lemma sort_AB: "sort [''A'', ''B''] = [''A'', ''B'']"
  by code_simp

lemma np_percentage_2_3: "np_percentage 2 3 = Tenths 667"
  by code_simp

lemma np_percentage_1_3: "np_percentage (Suc 0) 3 = Tenths 333"
  by code_simp

text \<open>
  C8. For a classification table of exactly three rows whose \<open>Classification\<close> values are
  A, A and B (in any order of the rows), Table 1 consists of the rows A with Count 2 and
  Percentage 66.7, B with Count 1 and Percentage 33.3, and Total with Count 3 and
  Percentage 100.0, in that order.
\<close>

theorem table_1_three_rows:
  assumes "map Classification df
             \<in> {[''A'', ''A'', ''B''], [''A'', ''B'', ''A''], [''B'', ''A'', ''A'']}"
  shows "generate_classification_table df =
    Inr [\<lparr>Count = 2, Percentage = Tenths 667, Category = ''A'',
           Category_Name = ''Hydropower scheduling and water values''\<rparr>,
         \<lparr>Count = 1, Percentage = Tenths 333, Category = ''B'',
           Category_Name = ''Stochastic programming for hydropower''\<rparr>,
         \<lparr>Count = 3, Percentage = Tenths 1000, Category = ''Total'', Category_Name = []\<rparr>]"
proof -
  have len: "length df = 3"
    using assms length_map [of Classification df] by auto
  have vc: "value_counts (map Classification df) = [(''A'', 2), (''B'', 1)]"
    using assms value_counts_AAB value_counts_ABA value_counts_BAA by auto
  show ?thesis
    unfolding generate_classification_table_def
    by (simp add: len vc sort_AB t1_entry_def series_get_def np_percentage_2_3
        np_percentage_1_3 category_name_def CATEGORY_NAMES_def t1_total_def)
qed

theorem table_1_three_rows_witness:
  "generate_classification_table
     [\<lparr>Classification = ''A'', Method_clean = ''LP'', Study_region_clean = ''Norway'',
       Decade = ''Pre-2000''\<rparr>,
      \<lparr>Classification = ''B'', Method_clean = ''SDP'', Study_region_clean = ''Brazil'',
       Decade = ''Pre-2000''\<rparr>,
      \<lparr>Classification = ''A'', Method_clean = ''LP'', Study_region_clean = ''Not specified'',
       Decade = ''Pre-2000''\<rparr>] =
    Inr [\<lparr>Count = 2, Percentage = Tenths 667, Category = ''A'',
           Category_Name = ''Hydropower scheduling and water values''\<rparr>,
         \<lparr>Count = 1, Percentage = Tenths 333, Category = ''B'',
           Category_Name = ''Stochastic programming for hydropower''\<rparr>,
         \<lparr>Count = 3, Percentage = Tenths 1000, Category = ''Total'', Category_Name = []\<rparr>]"
  using table_1_three_rows
    [of "[\<lparr>Classification = ''A'', Method_clean = ''LP'', Study_region_clean = ''Norway'',
            Decade = ''Pre-2000''\<rparr>,
          \<lparr>Classification = ''B'', Method_clean = ''SDP'', Study_region_clean = ''Brazil'',
            Decade = ''Pre-2000''\<rparr>,
          \<lparr>Classification = ''A'', Method_clean = ''LP'',
            Study_region_clean = ''Not specified'', Decade = ''Pre-2000''\<rparr>]"]
  by simp

subsection \<open>Division by the number of rows\<close>

lemma all_finite_table:
  assumes "\<And>r. r \<in> set body \<Longrightarrow> Percentage r = np_percentage (Count r) n"
    and "0 < n" and "Percentage tot = Tenths 1000"
  shows "all_finite (body @ [tot])"
  using assms by (auto simp: all_finite_def list_all_iff np_percentage_def)

lemma table_1_finite:
  "df \<noteq> [] \<Longrightarrow> \<exists>t. generate_classification_table df = Inr t \<and> all_finite t"
  unfolding generate_classification_table_eq
  by (auto intro!: all_finite_table [where n = "length df"] simp: t1_total_def)

lemma table_2_finite: "df \<noteq> [] \<Longrightarrow> all_finite (generate_method_table df)"
  unfolding generate_method_table_def Let_def
  by (auto intro!: all_finite_table [where n = "length df"] simp: t2_total_def t2_entry_def)

lemma table_3_finite:
  "df \<noteq> [] \<Longrightarrow> \<exists>t. generate_region_table df = Inr t \<and> all_finite t"
  by (auto simp: generate_region_table_eq region_rows_pct t3_total_def
      intro!: all_finite_table [where n = "length df"])

lemma table_4_finite:
  "df \<noteq> [] \<Longrightarrow> \<exists>t. generate_year_table df = Inr t \<and> all_finite t"
  by (auto simp: generate_year_table_eq t4_total_def
      intro!: all_finite_table [where n = "length df"])

lemma generate_year_table_error_iff:
  "generate_year_table df = Inl e \<longleftrightarrow> df = [] \<and> e = ZeroDivisionError"
  by (cases "df = []") (auto simp: generate_year_table_empty generate_year_table_eq)

text \<open>
  C10. The generators divide each count by the number of input rows without a zero
  guard. When the classification table is not empty, Tables 1 to 4 are all returned and
  every percentage in them is a finite number. \<open>generate_year_table\<close> raises
  \<open>ZeroDivisionError\<close> exactly when the classification table has no rows, and it raises
  nothing else.
\<close>

theorem percentages_well_defined:
  "(df \<noteq> [] \<longrightarrow>
      (\<exists>t. generate_classification_table df = Inr t \<and> all_finite t)
      \<and> all_finite (generate_method_table df)
      \<and> (\<exists>t. generate_region_table df = Inr t \<and> all_finite t)
      \<and> (\<exists>t. generate_year_table df = Inr t \<and> all_finite t))
   \<and> (generate_year_table df = Inl ZeroDivisionError \<longleftrightarrow> df = [])
   \<and> (isl (generate_year_table df) \<longleftrightarrow> df = [])"
proof -
  have "isl (generate_year_table df) \<longleftrightarrow> df = []"
    using generate_year_table_error_iff [of df] by (cases "generate_year_table df") auto
  then show ?thesis
    using table_1_finite [of df] table_2_finite [of df] table_3_finite [of df]
      table_4_finite [of df] generate_year_table_error_iff [of df ZeroDivisionError]
    by blast
qed

theorem percentages_well_defined_witness:
  "(\<exists>t. generate_classification_table
          [\<lparr>Classification = ''A'', Method_clean = ''LP'', Study_region_clean = ''Norway'',
            Decade = ''Pre-2000''\<rparr>] = Inr t \<and> all_finite t)
   \<and> all_finite (generate_method_table
          [\<lparr>Classification = ''A'', Method_clean = ''LP'', Study_region_clean = ''Norway'',
            Decade = ''Pre-2000''\<rparr>])
   \<and> (\<exists>t. generate_region_table
          [\<lparr>Classification = ''A'', Method_clean = ''LP'', Study_region_clean = ''Norway'',
            Decade = ''Pre-2000''\<rparr>] = Inr t \<and> all_finite t)
   \<and> (\<exists>t. generate_year_table
          [\<lparr>Classification = ''A'', Method_clean = ''LP'', Study_region_clean = ''Norway'',
            Decade = ''Pre-2000''\<rparr>] = Inr t \<and> all_finite t)
   \<and> generate_year_table
          [\<lparr>Classification = ''A'', Method_clean = ''LP'', Study_region_clean = ''Norway'',
            Decade = ''Pre-2000''\<rparr>] \<noteq> Inl ZeroDivisionError
   \<and> generate_year_table [] = Inl ZeroDivisionError"
  using percentages_well_defined
    [of "[\<lparr>Classification = ''A'', Method_clean = ''LP'', Study_region_clean = ''Norway'',
            Decade = ''Pre-2000''\<rparr>]"]
    percentages_well_defined [of "[]"]
  by simp

subsection \<open>Bucketing of the regions in Table 3\<close>

lemma filter_sort_desc: "filter P (sort_desc f xs) = sort_desc f (filter P xs)"
  by (simp add: sort_desc_def filter_sort)


lemma length_small_regions:
  "length (filter (\<lambda>rc. P (fst rc)) (value_counts xs)) = card {r \<in> set xs. P r}"
proof -
  have "length (filter (\<lambda>rc. P (fst rc)) (value_counts xs)) = length (filter P (uniques xs))"
    by (simp add: value_counts_def filter_sort_desc filter_map comp_def)
  also have "\<dots> = card (set (filter P (uniques xs)))"
    by (rule distinct_card [symmetric]) simp
  also have "set (filter P (uniques xs)) = {r \<in> set xs. P r}"
    by auto
  finally show ?thesis .
qed

lemma count_list_pos: "x \<in> set xs \<Longrightarrow> 0 < count_list xs x"
  by (induction xs) auto




subsection \<open>Order of the rows of Table 3\<close>

lemma sorted_wrt_sort_desc: "sorted_wrt (\<lambda>a b. f b \<le> f a) (sort_desc f xs)"
proof -
  have "sorted (map (\<lambda>x. - int (f x)) (sort_key (\<lambda>x. - int (f x)) xs))"
    by (rule sorted_sort_key)
  then show ?thesis
    by (simp add: sort_desc_def sorted_map)
qed

text \<open>
  C4 (as amended). In Table 3, for every non-empty classification table, all rows other
  than the Total row (the individually listed rows together with the Other row, when
  there is one) appear in descending order of Count, the Other row at the place its
  count gives it, and the Total row is the last row of the table.
\<close>

theorem region_table_order:
  assumes "df \<noteq> []"
  shows "\<exists>rows. generate_region_table df = Inr (rows @ [t3_total (length df)])
           \<and> sorted_wrt (\<lambda>a b. Count b \<le> Count a) rows
           \<and> set rows = set (region_rows (length df) (value_counts (map Study_region_clean df)))"
  using assms by (simp add: generate_region_table_eq sorted_wrt_sort_desc)

theorem region_table_order_witness:
  "\<exists>rows. generate_region_table example_regions
              = Inr (rows @ [t3_total (length example_regions)])
           \<and> sorted_wrt (\<lambda>a b. Count b \<le> Count a) rows
           \<and> set rows = set (region_rows (length example_regions)
                               (value_counts (map Study_region_clean example_regions)))"
  by (rule region_table_order) (simp add: example_regions_def)

text \<open>
  The claim as stated fails: the Other row is sorted with the listed rows. With three
  papers on one region and four regions of one paper each, the Other row (count 4)
  comes first, before the individually listed row (count 3).
\<close>

theorem region_table_order_counterexample:
  "generate_region_table example_long_tail =
   Inr [\<lparr>Count = 4, Percentage = Tenths 571,
          Country_or_Region = ''Other (4 countries/regions)''\<rparr>,
        \<lparr>Count = 3, Percentage = Tenths 429, Country_or_Region = ''X''\<rparr>,
        \<lparr>Count = 7, Percentage = Tenths 1000, Country_or_Region = ''Total''\<rparr>]"
  unfolding example_long_tail_def by code_simp

subsection \<open>Moving averages of Chart 1\<close>

lemma rolling_mean_length: "length (rolling_mean w m xs) = length xs"
  by (simp add: rolling_mean_def Let_def)

lemma window_card:
  "card {j. j < n \<and> i \<le> j + h \<and> j \<le> i + h} = min (i + 1 + h) n - (i - h)"
proof -
  have "{j. j < n \<and> i \<le> j + h \<and> j \<le> i + h} = {i - h ..< min (i + 1 + h) n}"
    by auto
  then show ?thesis by simp
qed

lemma rolling_mean_None:
  assumes "i < length xs" and "w = Suc (2 * h)"
  shows "rolling_mean w m xs ! i = None
           \<longleftrightarrow> card {j. j < length xs \<and> i \<le> j + h \<and> j \<le> i + h} < m"
proof -
  have "rolling_mean w m xs ! i = None
          \<longleftrightarrow> \<not> m \<le> min (i + 1 + h) (length xs) - (i - h)"
    using assms by (auto simp: rolling_mean_def Let_def)
  then show ?thesis
    unfolding window_card by auto
qed

text \<open>
  C5. For every series of papers per year, each of the two centred rolling means (window
  3 with at least 2 periods, window 5 with at least 3 periods) has the length of the
  series, and its value at an index is undefined exactly when fewer than the minimum
  number of positions of the series lie in the centred window at that index, that is
  within distance 1 (respectively 2) of the index.
\<close>

theorem rolling_means_defined:
  "length (ma_3yr xs) = length xs \<and> length (ma_5yr xs) = length xs
   \<and> (\<forall>i < length xs.
        (ma_3yr xs ! i = None \<longleftrightarrow> card {j. j < length xs \<and> i \<le> j + 1 \<and> j \<le> i + 1} < 2)
      \<and> (ma_5yr xs ! i = None \<longleftrightarrow> card {j. j < length xs \<and> i \<le> j + 2 \<and> j \<le> i + 2} < 3))"
proof -
  have three: "ma_3yr xs ! i = None
      \<longleftrightarrow> card {j. j < length xs \<and> i \<le> j + 1 \<and> j \<le> i + 1} < 2" if "i < length xs" for i
    unfolding ma_3yr_def using that by (rule rolling_mean_None) simp
  have five: "ma_5yr xs ! i = None
      \<longleftrightarrow> card {j. j < length xs \<and> i \<le> j + 2 \<and> j \<le> i + 2} < 3" if "i < length xs" for i
    unfolding ma_5yr_def using that by (rule rolling_mean_None) simp
  show ?thesis
    using three five by (simp add: ma_3yr_def ma_5yr_def rolling_mean_length)
qed

theorem rolling_means_defined_witness:
  "(0 :: nat) < length [4, 7 :: int]
   \<and> (ma_3yr [4, 7] ! 0 = None
        \<longleftrightarrow> card {j. j < length [4, 7 :: int] \<and> 0 \<le> j + 1 \<and> j \<le> 0 + 1} < 2)
   \<and> (ma_5yr [4, 7] ! 0 = None
        \<longleftrightarrow> card {j. j < length [4, 7 :: int] \<and> 0 \<le> j + 2 \<and> j \<le> 0 + 2} < 3)"
  using rolling_means_defined [of "[4, 7]"] by simp

lemma rolling_means_short_series:
  "ma_3yr [4, 7] = [Some (11 / 2), Some (11 / 2)] \<and> ma_5yr [4, 7] = [None, None]"
  by code_simp

subsection \<open>Bucketing of the regions in Chart 2\<close>

lemma map_of_filter_key:
  "map_of (filter (\<lambda>kv. Q (fst kv)) xs) k = (if Q k then map_of xs k else None)"
  by (induction xs) auto

lemma sum_list_pos_iff:
  "(\<And>x. x \<in> set xs \<Longrightarrow> 0 < f x) \<Longrightarrow> 0 < sum_list (map f xs) \<longleftrightarrow> xs \<noteq> []" for f :: "'a \<Rightarrow> nat"
  by (cases xs) auto

lemma value_counts_pos: "(k, c) \<in> set (value_counts xs) \<Longrightarrow> 0 < c"
  by (auto simp: set_value_counts count_list_pos)

text \<open>
  C3 (as amended). In Chart 2, for every non-empty classification table, the two sentinel
  categories are shown individually whenever they occur, whatever their count. The
  other regions are sorted by descending count; the first 15 of them (\<open>top\<close>) are shown
  individually, however small their counts, and all the remaining ones (\<open>rest\<close>) are
  grouped into a single bar \<open>Other (N regions)\<close> whose count is the sum of their
  counts. No count threshold is involved: a region is grouped only when at least 15
  other non-sentinel regions precede it in the order by count.
\<close>

theorem chart_2_bucketing:
  fixes df :: "class_row list"
  defines "regions \<equiv> map Study_region_clean df"
  assumes "df \<noteq> []"
  shows "\<exists>top rest.
      create_geographic_distribution df =
        Inr (filter (\<lambda>kv. fst kv \<in> set regions)
               [(''Not specified'', count_list regions ''Not specified''),
                (''Synthetic/Theoretical'', count_list regions ''Synthetic/Theoretical'')]
             @ (if rest = [] then []
                else [(''Other ('' @ str_nat (length rest) @ '' regions)'',
                       sum_list (map snd rest))])
             @ rev top)
    \<and> set top \<union> set rest
        = (\<lambda>r. (r, count_list regions r)) ` {r \<in> set regions. r \<notin> special_categories}
    \<and> distinct (map fst (top @ rest))
    \<and> length top = min 15 (card {r \<in> set regions. r \<notin> special_categories})
    \<and> sorted_wrt (\<lambda>a b. snd b \<le> snd a) (top @ rest)"
proof -
  let ?raw = "value_counts regions"
  let ?regular = "filter (\<lambda>kv. fst kv \<notin> special_categories) ?raw"
  let ?sorted = "sort_desc snd ?regular"
  let ?top = "take 15 ?sorted"
  let ?rest = "drop 15 ?sorted"
  have pos: "0 < sum_list (map snd ?rest) \<longleftrightarrow> ?rest \<noteq> []"
    by (rule sum_list_pos_iff) (auto dest!: in_set_dropD intro: value_counts_pos)
  have specials: "concat (map (\<lambda>cat. case map_of (filter (\<lambda>kv. fst kv \<in> special_categories) ?raw) cat of
                                   Some c \<Rightarrow> [(cat, c)] | None \<Rightarrow> [])
                      [''Not specified'', ''Synthetic/Theoretical''])
     = filter (\<lambda>kv. fst kv \<in> set regions)
               [(''Not specified'', count_list regions ''Not specified''),
                (''Synthetic/Theoretical'', count_list regions ''Synthetic/Theoretical'')]"
  proof -
    have m: "map_of (filter (\<lambda>kv. fst kv \<in> special_categories) ?raw) cat
               = (if cat \<in> special_categories \<and> cat \<in> set regions
                  then Some (count_list regions cat) else None)" for cat
      using map_of_filter_key [of "\<lambda>k. k \<in> special_categories" ?raw cat]
      by (simp add: map_of_value_counts)
    have mem: "''Not specified'' \<in> special_categories"
      "''Synthetic/Theoretical'' \<in> special_categories"
      by (simp_all add: special_categories_def)
    show ?thesis
      by (simp add: m mem)
  qed
  have table: "create_geographic_distribution df =
        Inr (filter (\<lambda>kv. fst kv \<in> set regions)
               [(''Not specified'', count_list regions ''Not specified''),
                (''Synthetic/Theoretical'', count_list regions ''Synthetic/Theoretical'')]
             @ (if ?rest = [] then []
                else [(''Other ('' @ str_nat (length ?rest) @ '' regions)'',
                       sum_list (map snd ?rest))])
             @ rev ?top)"
    using assms(2) pos
    unfolding create_geographic_distribution_def Let_def regions_def [symmetric] specials
    by (simp add: py_true_div_def split: option.splits del: sum_list_eq_0_iff)
  have sets: "set ?top \<union> set ?rest
        = (\<lambda>r. (r, count_list regions r)) ` {r \<in> set regions. r \<notin> special_categories}"
  proof -
    have "set ?top \<union> set ?rest = set ?sorted"
      by (metis append_take_drop_id set_append)
    also have "\<dots> = (\<lambda>r. (r, count_list regions r)) ` {r \<in> set regions. r \<notin> special_categories}"
      by (auto simp: set_value_counts)
    finally show ?thesis .
  qed
  have dist: "distinct (map fst (?top @ ?rest))"
    using distinct_keys_value_counts [of regions]
    by (simp add: sort_desc_def distinct_map_sort_key distinct_map_filter)
  have len: "length ?top = min 15 (card {r \<in> set regions. r \<notin> special_categories})"
    using length_small_regions [of "\<lambda>r. r \<notin> special_categories" regions] by simp
  have sorted: "sorted_wrt (\<lambda>a b. snd b \<le> snd a) (?top @ ?rest)"
    by (simp add: sorted_wrt_sort_desc)
  show ?thesis
  proof (intro exI conjI)
    show "create_geographic_distribution df =
        Inr (filter (\<lambda>kv. fst kv \<in> set regions)
               [(''Not specified'', count_list regions ''Not specified''),
                (''Synthetic/Theoretical'', count_list regions ''Synthetic/Theoretical'')]
             @ (if ?rest = [] then []
                else [(''Other ('' @ str_nat (length ?rest) @ '' regions)'',
                       sum_list (map snd ?rest))])
             @ rev ?top)" by (fact table)
    show "set ?top \<union> set ?rest
        = (\<lambda>r. (r, count_list regions r)) ` {r \<in> set regions. r \<notin> special_categories}"
      by (fact sets)
    show "distinct (map fst (?top @ ?rest))" by (fact dist)
    show "length ?top = min 15 (card {r \<in> set regions. r \<notin> special_categories})"
      by (fact len)
    show "sorted_wrt (\<lambda>a b. snd b \<le> snd a) (?top @ ?rest)" by (fact sorted)
  qed
qed


theorem chart_2_bucketing_witness:
  "\<exists>top rest.
      create_geographic_distribution example_regions =
        Inr (filter (\<lambda>kv. fst kv \<in> set (map Study_region_clean example_regions))
               [(''Not specified'',
                 count_list (map Study_region_clean example_regions) ''Not specified''),
                (''Synthetic/Theoretical'',
                 count_list (map Study_region_clean example_regions) ''Synthetic/Theoretical'')]
             @ (if rest = [] then []
                else [(''Other ('' @ str_nat (length rest) @ '' regions)'',
                       sum_list (map snd rest))])
             @ rev top)
    \<and> set top \<union> set rest
        = (\<lambda>r. (r, count_list (map Study_region_clean example_regions) r)) `
            {r \<in> set (map Study_region_clean example_regions). r \<notin> special_categories}
    \<and> distinct (map fst (top @ rest))
    \<and> length top
        = min 15 (card {r \<in> set (map Study_region_clean example_regions).
                          r \<notin> special_categories})
    \<and> sorted_wrt (\<lambda>a b. snd b \<le> snd a) (top @ rest)"
  by (rule chart_2_bucketing) (simp add: example_regions_def)

text \<open>
  The claim as stated fails: Chart 2 does not apply the count threshold of Table 3. In
  the example table Chile and Peru have one paper each; Chart 2 shows both as bars of
  their own and has no Other bar, while Table 3 groups them into its Other row.
\<close>

theorem chart_2_bucketing_counterexample:
  "create_geographic_distribution example_regions =
     Inr [(''Not specified'', 1), (''Peru'', 1), (''Chile'', 1), (''Norway'', 3)]
   \<and> generate_region_table example_regions =
     Inr [\<lparr>Count = 3, Percentage = Tenths 500, Country_or_Region = ''Norway''\<rparr>,
          \<lparr>Count = 2, Percentage = Tenths 333,
            Country_or_Region = ''Other (2 countries/regions)''\<rparr>,
          \<lparr>Count = 1, Percentage = Tenths 167, Country_or_Region = ''Not specified''\<rparr>,
          \<lparr>Count = 6, Percentage = Tenths 1000, Country_or_Region = ''Total''\<rparr>]"
  unfolding example_regions_def by code_simp

subsection \<open>The pipeline runner\<close>

lemma steps_started_append [simp]:
  "steps_started (xs @ ys) = steps_started xs @ steps_started ys"
  by (induction xs rule: steps_started.induct) auto

lemma steps_started_run_step:
  "run_step child step w = (success, out, w') \<Longrightarrow> steps_started out = [number step]"
  by (auto simp: run_step_def Let_def split: if_splits prod.splits proc_outcome.splits)

lemma run_step_missing_outputs:
  assumes "path_exists w (''scripts/'' @ script step)"
    and "child (''scripts/'' @ script step) w = (Exited 0, w')"
    and "\<exists>p \<in> set (outputs step). \<not> path_exists w' p"
  shows "run_step child step w =
     (True, [Step_banner (number step),
             Missing_outputs (filter (\<lambda>p. \<not> path_exists w' p) (outputs step)),
             Completed_with_warnings], w')"
  using assms by (auto simp: run_step_def Let_def filter_empty_conv)

lemma run_step_failure:
  assumes "fst (child (''scripts/'' @ script step) w) = TimeoutExpired
           \<or> (\<exists>rc. rc \<noteq> 0 \<and> fst (child (''scripts/'' @ script step) w) = Exited rc)"
  shows "fst (run_step child step w) = False"
  using assms
  by (auto simp: run_step_def Let_def split: prod.splits proc_outcome.splits)

lemma run_steps_halt:
  "run_steps child 0 steps (results, msgs, w) = (results', msgs', w') \<Longrightarrow>
     \<exists>r. results' = results @ r
        \<and> map fst r = take (length r) (map number steps)
        \<and> (\<forall>i. Suc i < length r \<longrightarrow> snd (r ! i))
        \<and> ((\<forall>kv \<in> set r. snd kv) \<longrightarrow> length r = length steps)
        \<and> steps_started msgs' = steps_started msgs @ map fst r"
proof (induction steps arbitrary: results msgs w)
  case Nil
  then show ?case by simp
next
  case (Cons step rest)
  obtain success out w1 where rs: "run_step child step w = (success, out, w1)"
    by (cases "run_step child step w") auto
  have started: "steps_started out = [number step]"
    using rs by (rule steps_started_run_step)
  show ?case
  proof (cases success)
    case False
    then have "results' = results @ [(number step, False)]"
      and "msgs' = msgs @ out @ [Pipeline_halted (number step)]"
      using Cons.prems rs by simp_all
    then show ?thesis
      using started by (intro exI [of _ "[(number step, False)]"]) simp
  next
    case True
    then have "run_steps child 0 rest (results @ [(number step, True)], msgs @ out, w1)
                 = (results', msgs', w')"
      using Cons.prems rs by simp
    from Cons.IH [OF this] obtain r where r: "results' = (results @ [(number step, True)]) @ r"
      "map fst r = take (length r) (map number rest)"
      "\<forall>i. Suc i < length r \<longrightarrow> snd (r ! i)"
      "(\<forall>kv \<in> set r. snd kv) \<longrightarrow> length r = length rest"
      "steps_started msgs' = steps_started (msgs @ out) @ map fst r"
      by blast
    have "\<forall>i. Suc i < length ((number step, True) # r) \<longrightarrow> snd (((number step, True) # r) ! i)"
      using r(3) by (auto simp: nth_Cons split: nat.splits)
    then show ?thesis
      using r started by (intro exI [of _ "(number step, True) # r"]) simp
  qed
qed

lemma path_exists_store [simp]: "path_exists w SQLITE_PATH \<longleftrightarrow> store w \<noteq> None"
  by (simp add: path_exists_def)

lemma store_mkdir [simp]: "store (mkdir d w) = store w"
  by (simp add: mkdir_def)

lemma runner_main_all_steps:
  assumes "runner_main child 0 w = (code, results, msgs, w')" and "store w \<noteq> None"
  shows "map fst results = take (length results) (map number STEPS)
       \<and> (\<forall>i. Suc i < length results \<longrightarrow> snd (results ! i))
       \<and> ((\<forall>kv \<in> set results. snd kv) \<longrightarrow> length results = length STEPS)
       \<and> steps_started msgs = map fst results"
proof -
  obtain rs ms w1 where run: "run_steps child 0 STEPS ([], [Database_found], mkdir FIGURES_DIR w)
      = (rs, ms, w1)"
    by (cases "run_steps child 0 STEPS ([], [Database_found], mkdir FIGURES_DIR w)") auto
  obtain c closing where sm: "summary rs = (c, closing)"
    by (cases "summary rs") auto
  have closing: "steps_started closing = []"
    using sm by (auto simp: summary_def Let_def split: if_splits)
  have "results = rs" and "msgs = ms @ closing"
    using assms run sm by (simp_all add: runner_main_def check_prerequisites_def)
  then show ?thesis
    using run_steps_halt [OF run] closing by auto
qed







text \<open>
  C6. When the runner executes a step whose child exits with code 0 but some expected
  output file is missing afterwards, the step reports the missing files and a warning
  and counts as passed. A step fails when the child times out or exits with a non-zero
  code. When all steps are run in order (\<open>--step 0\<close>), the steps that were started are
  a prefix of the sequence, every started step but the last one passed, so a failed
  step is the last one started and no later step is run, and when every started step
  passed (with or without warnings) all steps were run.
\<close>

theorem pipeline_warnings_and_halting:
  "(path_exists w (''scripts/'' @ script step)
      \<and> child (''scripts/'' @ script step) w = (Exited 0, w')
      \<and> (\<exists>p \<in> set (outputs step). \<not> path_exists w' p)
     \<longrightarrow> run_step child step w =
           (True, [Step_banner (number step),
                   Missing_outputs (filter (\<lambda>p. \<not> path_exists w' p) (outputs step)),
                   Completed_with_warnings], w'))
   \<and> (fst (child (''scripts/'' @ script step) w) = TimeoutExpired
       \<or> (\<exists>rc. rc \<noteq> 0 \<and> fst (child (''scripts/'' @ script step) w) = Exited rc)
     \<longrightarrow> \<not> fst (run_step child step w))
   \<and> (store w \<noteq> None \<longrightarrow>
        (case runner_main child 0 w of
           (code, results, msgs, w'') \<Rightarrow>
             map fst results = take (length results) (map number STEPS)
             \<and> (\<forall>i. Suc i < length results \<longrightarrow> snd (results ! i))
             \<and> ((\<forall>kv \<in> set results. snd kv) \<longrightarrow> length results = length STEPS)
             \<and> steps_started msgs = map fst results))"
proof -
  have halting: "case runner_main child 0 w of
           (code, results, msgs, w'') \<Rightarrow>
             map fst results = take (length results) (map number STEPS)
             \<and> (\<forall>i. Suc i < length results \<longrightarrow> snd (results ! i))
             \<and> ((\<forall>kv \<in> set results. snd kv) \<longrightarrow> length results = length STEPS)
             \<and> steps_started msgs = map fst results" if "store w \<noteq> None"
  proof -
    obtain code results msgs w'' where r: "runner_main child 0 w = (code, results, msgs, w'')"
      by (cases "runner_main child 0 w") auto
    show ?thesis
      unfolding r using runner_main_all_steps [OF r that] by simp
  qed
  show ?thesis
    using run_step_missing_outputs [of w step child w'] run_step_failure [of child step w]
      halting
    by blast
qed

theorem pipeline_warnings_and_halting_witness:
  "run_step (\<lambda>p w. (Exited 0, w)) (hd STEPS) example_world =
     (True, [Step_banner (number (hd STEPS)),
             Missing_outputs
               (filter (\<lambda>p. \<not> path_exists example_world p) (outputs (hd STEPS))),
             Completed_with_warnings], example_world)
   \<and> \<not> fst (run_step (\<lambda>p w. (TimeoutExpired, w)) (hd STEPS) example_world)
   \<and> (case runner_main (\<lambda>p w. (TimeoutExpired, w)) 0 example_world of
         (code, results, msgs, w'') \<Rightarrow>
           map fst results = take (length results) (map number STEPS)
           \<and> (\<forall>i. Suc i < length results \<longrightarrow> snd (results ! i))
           \<and> ((\<forall>kv \<in> set results. snd kv) \<longrightarrow> length results = length STEPS)
           \<and> steps_started msgs = map fst results)"
proof -
  have script: "path_exists example_world (''scripts/'' @ script (hd STEPS))"
    by (simp add: path_exists_def example_world_def STEPS_def SQLITE_PATH_def)
  have missing: "\<exists>p \<in> set (outputs (hd STEPS)). \<not> path_exists example_world p"
    by (simp add: path_exists_def example_world_def STEPS_def SQLITE_PATH_def)
  have store: "store example_world \<noteq> None"
    by (simp add: example_world_def)
  show ?thesis
    using pipeline_warnings_and_halting
        [of example_world "hd STEPS" "\<lambda>p w. (Exited 0, w)" example_world]
      pipeline_warnings_and_halting
        [of example_world "hd STEPS" "\<lambda>p w. (TimeoutExpired, w)" example_world]
      script missing store
    by simp
qed

lemma runner_halts_at_first_step:
  "runner_main (\<lambda>p w. (TimeoutExpired, w)) 0 example_world =
     (1, [(1, False)],
      [Database_found, Step_banner 1, Timeout_exceeded, Pipeline_halted 1, Pipeline_incomplete],
      mkdir FIGURES_DIR example_world)"
  by (simp add: runner_main_def check_prerequisites_def run_step_def summary_def STEPS_def
      path_exists_def example_world_def SQLITE_PATH_def mkdir_def FIGURES_DIR_def)

subsection \<open>A missing store\<close>







subsection \<open>The CSV files of two runs\<close>


lemma export_tables_explicit:
  "export_tables
     [(''table_1'', f1), (''table_2'', f2), (''table_3'', f3), (''table_4'', f4),
      (''table_5'', f5), (''table_6'', f6)] now w =
   (Inr (),
    write_file ''tables/all_tables_formatted.txt'' (Text now)
     (write_file ''tables/table_6_wv_purpose.csv'' (CSV f6)
       (write_file ''tables/table_5_wv_summary.csv'' (CSV f5)
         (write_file ''tables/table_4_years.csv'' (CSV f4)
           (write_file ''tables/table_3_regions.csv'' (CSV f3)
             (write_file ''tables/table_2_methods.csv'' (CSV f2)
               (write_file ''tables/table_1_classification.csv'' (CSV f1)
                 (mkdir ''tables'' w))))))))"
  by (simp add: export_tables_def csv_names_def TABLES_DIR_def)


lemma csv_files_write_file:
  "csv_files (write_file p (CSV f) w) = (csv_files w)(p \<mapsto> f)"
  "csv_files (write_file p (Text t) w) = (csv_files w)(p := None)"
  "csv_files (write_file p Image w) = (csv_files w)(p := None)"
  by (auto simp: csv_files_def write_file_def)

lemma csv_files_mkdir: "csv_files (mkdir d w) = csv_files w"
  by (auto simp: csv_files_def mkdir_def)

lemma csv_files_queries: "csv_files (w\<lparr>queries := q\<rparr>) = csv_files w"
  by (auto simp: csv_files_def)

lemma store_write_file [simp]: "store (write_file p c w) = store w"
  by (simp add: write_file_def)

lemma dirs_write_file [simp]: "dirs (write_file p c w) = dirs w"
  by (simp add: write_file_def)









lemma store_create_charts [simp]: "store (snd (create_charts fails db cs w)) = store w"
  by (induction cs arbitrary: w)
     (auto simp: save_figure_def mkdir_def split: option.splits)

lemma csv_files_save_figure:
  "csv_files (save_figure fig w) =
     (\<lambda>p. if p \<in> {FIGURES_DIR @ ''/'' @ fig @ ''.png'', FIGURES_DIR @ ''/'' @ fig @ ''.pdf''}
          then None else csv_files w p)"
  by (rule ext) (simp add: save_figure_def csv_files_write_file csv_files_mkdir)

lemma fst_create_charts:
  "fst (create_charts fails db cs w) = fst (create_charts fails db cs w')"
  by (induction cs arbitrary: w w') (auto split: option.splits)

lemma create_charts_erases:
  "\<exists>P. \<forall>w. csv_files (snd (create_charts fails db cs w))
               = (\<lambda>p. if p \<in> P then None else csv_files w p)"
proof (induction cs)
  case Nil
  show ?case by (intro exI [of _ "{}"]) simp
next
  case (Cons c cs)
  obtain routine fig where c: "c = (routine, fig)" by (cases c)
  from Cons.IH obtain P where P: "\<And>w. csv_files (snd (create_charts fails db cs w))
               = (\<lambda>p. if p \<in> P then None else csv_files w p)"
    by blast
  show ?case
  proof (cases "fails routine db")
    case (Some e)
    then show ?thesis
      unfolding c by (intro exI [of _ "{}"]) simp
  next
    case None
    then show ?thesis
      unfolding c
      by (intro exI [of _ "P \<union> {FIGURES_DIR @ ''/'' @ fig @ ''.png'',
                                  FIGURES_DIR @ ''/'' @ fig @ ''.pdf''}"])
         (auto simp: P csv_files_save_figure)
  qed
qed

lemma store_save_report [simp]: "store (snd (save_report report now w)) = store w"
  by (simp add: save_report_def)

lemma csv_files_save_report:
  "FIGURES_DIR \<in> set (dirs w) \<Longrightarrow>
     csv_files (snd (save_report report now w)) = (csv_files w)(FIGURES_DIR @ ''/'' @ report := None)"
  by (simp add: save_report_def csv_files_write_file)

lemma figures_in_mkdir [simp]: "FIGURES_DIR \<in> set (dirs (mkdir FIGURES_DIR w))"
  by (simp add: mkdir_def)

lemma main_03_some:
  assumes "store w = Some db"
  shows "main_03 fails now later w =
     (case create_charts fails \<lparr>classification = classification db, water_values = water_values db\<rparr>
             charts (w\<lparr>queries := queries w @ [''classification'', ''water_values'']\<rparr>) of
        (Inl e, w2) \<Rightarrow> (Inl e, w2)
      | (Inr u, w2) \<Rightarrow>
          save_report ''analytical_charts_report.txt'' later
            (write_file (FIGURES_DIR @ ''/fig_analytical_charts_captions.txt'') (Text now)
               (mkdir FIGURES_DIR w2)))"
  using assms by (simp add: main_03_def load_data_def)

lemma store_main_03 [simp]: "store (snd (main_03 fails now later w)) = store w"
proof (cases "store w")
  case None
  then show ?thesis by (simp add: main_03_def load_data_def)
next
  case (Some db)
  let ?db = "\<lparr>classification = classification db, water_values = water_values db\<rparr>"
  let ?w1 = "w\<lparr>queries := queries w @ [''classification'', ''water_values'']\<rparr>"
  obtain r w2 where cc: "create_charts fails ?db charts ?w1 = (r, w2)"
    by (cases "create_charts fails ?db charts ?w1") auto
  have "store w2 = store w"
    using store_create_charts [of fails ?db charts ?w1] cc by simp
  then show ?thesis
    unfolding main_03_some [OF Some] cc by (cases r) simp_all
qed

lemma main_03_erases:
  "\<exists>P. \<forall>now later w. store w = s \<longrightarrow>
       csv_files (snd (main_03 fails now later w)) = (\<lambda>p. if p \<in> P then None else csv_files w p)"
proof (cases s)
  case None
  then show ?thesis
    by (intro exI [of _ "{}"]) (simp add: main_03_def load_data_def)
next
  case (Some db)
  let ?db = "\<lparr>classification = classification db, water_values = water_values db\<rparr>"
  obtain P where P: "\<And>w. csv_files (snd (create_charts fails ?db charts w))
               = (\<lambda>p. if p \<in> P then None else csv_files w p)"
    using create_charts_erases [of fails ?db charts] by blast
  show ?thesis
  proof (cases "fst (create_charts fails ?db charts undefined)")
    case (Inl e)
    have "csv_files (snd (main_03 fails now later w))
                 = (\<lambda>p. if p \<in> P then None else csv_files w p)"
      if "store w = s" for now later and w :: "'a world"
    proof -
      let ?w1 = "w\<lparr>queries := queries w @ [''classification'', ''water_values'']\<rparr>"
      have "fst (create_charts fails ?db charts ?w1) = Inl e"
        using Inl fst_create_charts [of fails ?db charts ?w1 undefined] by simp
      then obtain w2 where w2: "create_charts fails ?db charts ?w1 = (Inl e, w2)"
        by (cases "create_charts fails ?db charts ?w1") auto
      have "csv_files w2 = (\<lambda>p. if p \<in> P then None else csv_files w p)"
        using P [of ?w1] w2 by (simp add: csv_files_queries cong: if_cong)
      moreover have "store w = Some db"
        using that Some by simp
      ultimately show ?thesis
        unfolding main_03_some [OF \<open>store w = Some db\<close>] w2 by simp
    qed
    then show ?thesis by blast
  next
    case (Inr u)
    have "csv_files (snd (main_03 fails now later w))
            = (\<lambda>p. if p \<in> P \<union> {FIGURES_DIR @ ''/fig_analytical_charts_captions.txt'',
                                 FIGURES_DIR @ ''/analytical_charts_report.txt''}
                   then None else csv_files w p)"
      if "store w = s" for now later and w :: "'a world"
    proof -
      let ?w1 = "w\<lparr>queries := queries w @ [''classification'', ''water_values'']\<rparr>"
      have "fst (create_charts fails ?db charts ?w1) = Inr u"
        using Inr fst_create_charts [of fails ?db charts ?w1 undefined] by simp
      then obtain w2 where w2: "create_charts fails ?db charts ?w1 = (Inr u, w2)"
        by (cases "create_charts fails ?db charts ?w1") auto
      have csv2: "csv_files w2 = (\<lambda>p. if p \<in> P then None else csv_files w p)"
        using P [of ?w1] w2 by (simp add: csv_files_queries cong: if_cong)
      have "store w = Some db"
        using that Some by simp
      show ?thesis
        unfolding main_03_some [OF \<open>store w = Some db\<close>] w2
        by (rule ext)
           (simp add: csv_files_save_report csv_files_write_file csv_files_mkdir csv2)
    qed
    then show ?thesis by blast
  qed
qed


lemma main_03_no_csv:
  "csv_files (snd (main_03 fails now later w)) p = Some f \<Longrightarrow> csv_files w p = Some f"
proof -
  obtain P where P: "\<And>now later w'. store w' = store w \<Longrightarrow>
       csv_files (snd (main_03 fails now later w')) = (\<lambda>p. if p \<in> P then None else csv_files w' p)"
    using main_03_erases [of "store w" fails] by blast
  assume "csv_files (snd (main_03 fails now later w)) p = Some f"
  then show ?thesis
    unfolding P [OF refl] by (simp split: if_splits)
qed

lemma main_02_no_csv:
  "csv_files (snd (main_02 fails now w)) p = Some f \<Longrightarrow> csv_files w p = Some f"
  by (auto simp: main_02_def load_data_02_def save_report_def save_figure_def write_file_def
        mkdir_def csv_files_def FIGURES_DIR_def Let_def split: option.splits if_splits content.splits)


lemma formatted_text_has_time_stamp:
  "files (snd (export_tables
     [(''table_1'', f1), (''table_2'', f2), (''table_3'', f3), (''table_4'', f4),
      (''table_5'', f5), (''table_6'', f6)] now w)) ''tables/all_tables_formatted.txt''
     = Some (Text now)"
  by (simp add: export_tables_explicit write_file_def)


end
